theory Spec2Isabelle
  imports Complex_Main "HOL-Library.Multiset"
begin

section \<open>Strings of the host language\<close>

text \<open>
  The program is TypeScript. A \<^typ>\<open>char\<close> stands for one UTF-16 code unit below 256
  (the Latin-1 range), a \<^typ>\<open>string\<close> for a JavaScript string made of such units.
  \<open>toLowerCase\<close>, \<open>trim\<close>, \<open>startsWith\<close> and \<open>includes\<close> are the methods of
  \<open>String.prototype\<close> on that range.
\<close>

definition code :: "char \<Rightarrow> nat" where
  "code c = of_char c"

definition toLowerChar :: "char \<Rightarrow> char" where
  "toLowerChar c =
     (if (65 \<le> code c \<and> code c \<le> 90) \<or> (192 \<le> code c \<and> code c \<le> 222 \<and> code c \<noteq> 215)
      then char_of (code c + 32) else c)"

definition toLowerCase :: "string \<Rightarrow> string" where
  "toLowerCase s = map toLowerChar s"

definition isWhiteSpace :: "char \<Rightarrow> bool" where
  "isWhiteSpace c = (code c \<in> {9, 10, 11, 12, 13, 32, 160})"

definition trim :: "string \<Rightarrow> string" where
  "trim s = rev (dropWhile isWhiteSpace (rev (dropWhile isWhiteSpace s)))"

fun startsWith :: "string \<Rightarrow> string \<Rightarrow> bool" where
  "startsWith s [] = True"
| "startsWith [] (p # ps) = False"
| "startsWith (c # cs) (p # ps) = (c = p \<and> startsWith cs ps)"

fun includes_str :: "string \<Rightarrow> string \<Rightarrow> bool" where
  "includes_str [] p = startsWith [] p"
| "includes_str (c # cs) p = (startsWith (c # cs) p \<or> includes_str cs p)"

section \<open>Regular expressions\<close>

text \<open>
  Every pattern of \<open>storage.ts\<close> is a regular-expression literal with the flag \<open>i\<close>,
  used through \<open>String.prototype.match\<close> without the flag \<open>g\<close>: the leftmost match
  wins, and at one start position the backtracking order of ECMAScript decides (a greedy
  quantifier tries the longest run first, a lazy one the shortest, an alternation its
  left branch first). The matcher below is that backtracking search. Its continuation is
  the list of expressions still to be matched; \<open>Close\<close> is the matcher's own marker for
  the end of a capture group and does not occur in a pattern.
\<close>

datatype cls = Space | Word | Digit | Dot | OneOf string

datatype re =
    Lit string
  | Eol
  | Eps
  | One cls
  | Star cls
  | Plus cls
  | LazyPlus cls
  | Seq re re
  | Alt re re
  | Opt re
  | Cap nat re
  | Close nat string

text \<open>
  \<open>Canonicalize\<close> of the language specification, without the flag \<open>u\<close>: the upper-case
  form of a character. The upper-case forms of \<open>0xB5\<close> and \<open>0xFF\<close> lie outside the
  range; these two characters are left as they are, which no pattern of the program
  can tell apart, every pattern being ASCII.
\<close>

definition canonicalize :: "char \<Rightarrow> char" where
  "canonicalize c =
     (if (97 \<le> code c \<and> code c \<le> 122) \<or> (224 \<le> code c \<and> code c \<le> 254 \<and> code c \<noteq> 247)
      then char_of (code c - 32) else c)"

fun inCls :: "cls \<Rightarrow> char \<Rightarrow> bool" where
  "inCls Space c = isWhiteSpace c"
| "inCls Word c =
     ((97 \<le> code c \<and> code c \<le> 122) \<or> (65 \<le> code c \<and> code c \<le> 90)
      \<or> (48 \<le> code c \<and> code c \<le> 57) \<or> code c = 95)"
| "inCls Digit c = (48 \<le> code c \<and> code c \<le> 57)"
| "inCls Dot c = (code c \<noteq> 10 \<and> code c \<noteq> 13)"
| "inCls (OneOf cs) c = (canonicalize c \<in> set (map canonicalize cs))"

text \<open>A literal matches a prefix of the input, case-insensitively.\<close>

fun litMatch :: "string \<Rightarrow> string \<Rightarrow> bool" where
  "litMatch [] s = True"
| "litMatch (p # ps) [] = False"
| "litMatch (p # ps) (c # cs) = (canonicalize p = canonicalize c \<and> litMatch ps cs)"

text \<open>
  A capture group is recorded as the input left at its start and the input left at its
  end; \<open>capture\<close> reads the text between the two.
\<close>

type_synonym captures = "nat \<Rightarrow> (string \<times> string) option"

definition capture :: "captures \<Rightarrow> nat \<Rightarrow> string option" where
  "capture m n =
     (case m n of
        None \<Rightarrow> None
      | Some (s0, s1) \<Rightarrow> Some (take (length s0 - length s1) s0))"

fun weight :: "re \<Rightarrow> nat" where
  "weight (Seq a b) = Suc (weight a + weight b)"
| "weight (Alt a b) = Suc (weight a + weight b)"
| "weight (Opt a) = Suc (weight a)"
| "weight (Cap n a) = Suc (Suc (weight a))"
| "weight r = 1"

function (sequential) matchRe :: "re list \<Rightarrow> string \<Rightarrow> captures \<Rightarrow> captures option" where
  "matchRe [] s c = Some c"
| "matchRe (Lit l # k) s c =
     (if litMatch l s then matchRe k (drop (length l) s) c else None)"
| "matchRe (Eol # k) s c = (if s = [] then matchRe k s c else None)"
| "matchRe (Eps # k) s c = matchRe k s c"
| "matchRe (One cl # k) [] c = None"
| "matchRe (One cl # k) (x # s) c = (if inCls cl x then matchRe k s c else None)"
| "matchRe (Star cl # k) [] c = matchRe k [] c"
| "matchRe (Star cl # k) (x # s) c =
     (if inCls cl x
      then (case matchRe (Star cl # k) s c of
              Some m \<Rightarrow> Some m
            | None \<Rightarrow> matchRe k (x # s) c)
      else matchRe k (x # s) c)"
| "matchRe (Plus cl # k) [] c = None"
| "matchRe (Plus cl # k) (x # s) c =
     (if inCls cl x then matchRe (Star cl # k) s c else None)"
| "matchRe (LazyPlus cl # k) [] c = None"
| "matchRe (LazyPlus cl # k) (x # s) c =
     (if inCls cl x
      then (case matchRe k s c of
              Some m \<Rightarrow> Some m
            | None \<Rightarrow> matchRe (LazyPlus cl # k) s c)
      else None)"
| "matchRe (Seq a b # k) s c = matchRe (a # b # k) s c"
| "matchRe (Alt a b # k) s c =
     (case matchRe (a # k) s c of
        Some m \<Rightarrow> Some m
      | None \<Rightarrow> matchRe (b # k) s c)"
| "matchRe (Opt a # k) s c =
     (case matchRe (a # k) s c of
        Some m \<Rightarrow> Some m
      | None \<Rightarrow> matchRe k s c)"
| "matchRe (Cap n a # k) s c = matchRe (a # Close n s # k) s c"
| "matchRe (Close n s0 # k) s c =
     matchRe k s (c(n \<mapsto> (s0, s)))"
  by pat_completeness auto
termination
  by (relation "inv_image (less_than <*lex*> less_than)
        (\<lambda>(k, s, c). (length s, sum_list (map weight k)))") auto

definition seqs :: "re list \<Rightarrow> re" where
  "seqs rs = foldr Seq rs Eps"

text \<open>
  \<open>String.prototype.match\<close>: the first start position, from the left, at which the
  pattern matches; the result is the capture groups of that match.
\<close>

fun search :: "re \<Rightarrow> string \<Rightarrow> captures option" where
  "search r [] = matchRe [r] [] Map.empty"
| "search r (x # s) =
     (case matchRe [r] (x # s) Map.empty of
        Some m \<Rightarrow> Some m
      | None \<Rightarrow> search r s)"

section \<open>Records of the schema\<close>

text \<open>
  \<open>shared/schema.ts\<close>: the four mock tables and the query log. A timestamp is the
  epoch value of a valid \<open>Date\<close>, in milliseconds; a decimal column is the string the
  driver delivers; a column without \<open>notNull()\<close> is an option (\<open>None\<close> is \<open>null\<close>).
\<close>

record SalesOrder =
  orderId :: string
  orderNumber :: string
  customerName :: string
  orderDate :: int
  totalAmount :: string
  status :: string
  region :: "string option"
  salesRep :: "string option"

record WorkOrder =
  workOrderId :: string
  workOrderNumber :: string
  description :: string
  assignedTo :: "string option"
  status :: string
  priority :: string
  scheduledDate :: "int option"
  completionDate :: "int option"
  department :: "string option"

record Invoice =
  invoiceId :: string
  invoiceNumber :: string
  vendorName :: string
  invoiceDate :: int
  dueDate :: int
  amount :: string
  status :: string
  paymentTerms :: "string option"

record InventoryItem =
  itemId :: string
  itemCode :: string
  itemName :: string
  category :: "string option"
  quantityOnHand :: int
  unitPrice :: string
  reorderLevel :: "int option"
  warehouse :: "string option"

record Query =
  id' :: string
  userQuestion :: string
  generatedSql :: "string option"
  aiInterpretation :: "string option"
  resultData :: "string option"
  status :: string
  errorMessage :: "string option"
  executionTimeMs :: "int option"
  createdAt :: int



section \<open>Values and property access\<close>

text \<open>
  The engine works on \<open>any[]\<close> and reads properties by name. \<open>jsval\<close> is what such a
  read can give on a row of the schema: a string, an integer number, a \<open>Date\<close>,
  \<open>null\<close>, \<open>undefined\<close>, or a member inherited from \<open>Object.prototype\<close>
  (\<open>Obj\<close>, carrying the text that \<open>String(...)\<close> gives for it).
\<close>

datatype jsval = Undefined | Null | Str string | Num int | DateV int | Obj string

datatype row =
    SalesOrderRow SalesOrder
  | WorkOrderRow WorkOrder
  | InvoiceRow Invoice
  | InventoryItemRow InventoryItem

definition nullable :: "('a \<Rightarrow> jsval) \<Rightarrow> 'a option \<Rightarrow> jsval" where
  "nullable f v = (case v of None \<Rightarrow> Null | Some x \<Rightarrow> f x)"

fun props :: "row \<Rightarrow> (string \<times> jsval) list" where
  "props (SalesOrderRow r) =
     [(''orderId'', Str (orderId r)),
      (''orderNumber'', Str (orderNumber r)),
      (''customerName'', Str (customerName r)),
      (''orderDate'', DateV (orderDate r)),
      (''totalAmount'', Str (totalAmount r)),
      (''status'', Str (SalesOrder.status r)),
      (''region'', nullable Str (region r)),
      (''salesRep'', nullable Str (salesRep r))]"
| "props (WorkOrderRow r) =
     [(''workOrderId'', Str (workOrderId r)),
      (''workOrderNumber'', Str (workOrderNumber r)),
      (''description'', Str (description r)),
      (''assignedTo'', nullable Str (assignedTo r)),
      (''status'', Str (WorkOrder.status r)),
      (''priority'', Str (priority r)),
      (''scheduledDate'', nullable DateV (scheduledDate r)),
      (''completionDate'', nullable DateV (completionDate r)),
      (''department'', nullable Str (department r))]"
| "props (InvoiceRow r) =
     [(''invoiceId'', Str (invoiceId r)),
      (''invoiceNumber'', Str (invoiceNumber r)),
      (''vendorName'', Str (vendorName r)),
      (''invoiceDate'', DateV (invoiceDate r)),
      (''dueDate'', DateV (dueDate r)),
      (''amount'', Str (amount r)),
      (''status'', Str (Invoice.status r)),
      (''paymentTerms'', nullable Str (paymentTerms r))]"
| "props (InventoryItemRow r) =
     [(''itemId'', Str (itemId r)),
      (''itemCode'', Str (itemCode r)),
      (''itemName'', Str (itemName r)),
      (''category'', nullable Str (category r)),
      (''quantityOnHand'', Num (quantityOnHand r)),
      (''unitPrice'', Str (unitPrice r)),
      (''reorderLevel'', nullable Num (reorderLevel r)),
      (''warehouse'', nullable Str (warehouse r))]"

text \<open>The members every object inherits, with their \<open>String(...)\<close> text.\<close>

definition nativeFunction :: "string \<Rightarrow> string" where
  "nativeFunction name = ''function '' @ name @ ''() { [native code] }''"

definition objectPrototype :: "(string \<times> string) list" where
  "objectPrototype =
     [(''constructor'', nativeFunction ''Object''),
      (''__defineGetter__'', nativeFunction ''__defineGetter__''),
      (''__defineSetter__'', nativeFunction ''__defineSetter__''),
      (''hasOwnProperty'', nativeFunction ''hasOwnProperty''),
      (''__lookupGetter__'', nativeFunction ''__lookupGetter__''),
      (''__lookupSetter__'', nativeFunction ''__lookupSetter__''),
      (''isPrototypeOf'', nativeFunction ''isPrototypeOf''),
      (''propertyIsEnumerable'', nativeFunction ''propertyIsEnumerable''),
      (''toString'', nativeFunction ''toString''),
      (''valueOf'', nativeFunction ''valueOf''),
      (''__proto__'', ''[object Object]''),
      (''toLocaleString'', nativeFunction ''toLocaleString'')]"

text \<open>\<open>row[key]\<close>: an own property, else an inherited one, else \<open>undefined\<close>.\<close>

definition getField :: "row \<Rightarrow> string \<Rightarrow> jsval" where
  "getField r key =
     (case map_of (props r) key of
        Some v \<Rightarrow> v
      | None \<Rightarrow> (case map_of objectPrototype key of Some s \<Rightarrow> Obj s | None \<Rightarrow> Undefined))"

text \<open>The condition of an \<open>if (v)\<close>.\<close>

fun truthy :: "jsval \<Rightarrow> bool" where
  "truthy Undefined = False"
| "truthy Null = False"
| "truthy (Str s) = (s \<noteq> [])"
| "truthy (Num n) = (n \<noteq> 0)"
| "truthy (DateV t) = True"
| "truthy (Obj s) = True"

section \<open>The host\<close>

text \<open>
  What the engine takes from its host and not from its own code: the clock
  (\<open>new Date()\<close>, and the same instant with \<open>setMonth(getMonth() - 3)\<close> applied, which is
  calendar arithmetic in the local time zone), \<open>Date.parse\<close> (fixed by the language only
  for the ISO format, left to the implementation otherwise), \<open>parseFloat\<close> on a
  string, the text of a \<open>Date\<close>, and \<open>localeCompare\<close>. \<open>None\<close> is \<open>NaN\<close>. The clock
  is read once for a call: every \<open>new Date()\<close> of one call gives \<open>now\<close>.
\<close>

record host =
  now :: int
  threeMonthsAgo :: int
  dateParse :: "string \<Rightarrow> int option"
  parseFloat :: "string \<Rightarrow> real option"
  dateToString :: "int \<Rightarrow> string"
  localeCompare :: "string \<Rightarrow> string \<Rightarrow> int"

text \<open>\<open>String(n)\<close> for an integer \<open>n\<close> (below \<open>10^21\<close> in size, as a column holds).\<close>

fun showNat :: "nat \<Rightarrow> string" where
  "showNat n = (if n < 10 then [char_of (48 + n)] else showNat (n div 10) @ [char_of (48 + n mod 10)])"

definition showInt :: "int \<Rightarrow> string" where
  "showInt n = (if n < 0 then CHR ''-'' # showNat (nat (- n)) else showNat (nat n))"

text \<open>\<open>String(v)\<close>.\<close>

fun toString :: "host \<Rightarrow> jsval \<Rightarrow> string" where
  "toString h Undefined = ''undefined''"
| "toString h Null = ''null''"
| "toString h (Str s) = s"
| "toString h (Num n) = showInt n"
| "toString h (DateV t) = dateToString h t"
| "toString h (Obj s) = s"

text \<open>\<open>new Date(v).getTime()\<close>.\<close>

fun getTime :: "host \<Rightarrow> jsval \<Rightarrow> int option" where
  "getTime h Undefined = None"
| "getTime h Null = Some 0"
| "getTime h (Str s) = dateParse h s"
| "getTime h (Num n) = (if \<bar>n\<bar> \<le> 8640000000000000 then Some n else None)"
| "getTime h (DateV t) = Some t"
| "getTime h (Obj s) = dateParse h s"

text \<open>\<open>parseFloat(v)\<close>, which reads \<open>String(v)\<close>.\<close>

fun parseFloatOf :: "host \<Rightarrow> jsval \<Rightarrow> real option" where
  "parseFloatOf h (Num n) = Some (real_of_int n)"
| "parseFloatOf h v = parseFloat h (toString h v)"

text \<open>Comparison and subtraction of numbers, \<open>NaN\<close> included.\<close>

fun numLess :: "int option \<Rightarrow> int option \<Rightarrow> bool" where
  "numLess (Some a) (Some b) = (a < b)"
| "numLess a b = False"

fun numGreaterEq :: "int option \<Rightarrow> int option \<Rightarrow> bool" where
  "numGreaterEq (Some a) (Some b) = (a \<ge> b)"
| "numGreaterEq a b = False"

fun numSub :: "real option \<Rightarrow> real option \<Rightarrow> real option" where
  "numSub (Some a) (Some b) = Some (a - b)"
| "numSub a b = None"

text \<open>
  \<open>a > b\<close> is used on \<open>quantityOnHand\<close> and \<open>reorderLevel\<close> only, behind a guard that
  both are truthy: on a row of the schema both are then numbers.
\<close>

fun jsGreater :: "jsval \<Rightarrow> jsval \<Rightarrow> bool" where
  "jsGreater (Num a) (Num b) = (a > b)"
| "jsGreater a b = False"

section \<open>The predicate matcher\<close>

text \<open>The patterns of \<open>applyWhereConditions\<close>, in the order of the source.\<close>

definition quote :: cls where
  "quote = OneOf [CHR 0x27, CHR 0x22]"

definition currentDate :: re where
  "currentDate = Alt (Lit ''GETDATE'') (Alt (Lit ''CURRENT_DATE'') (Lit ''NOW''))"

definition whereRe :: re where
  "whereRe = seqs [Lit ''WHERE'', Plus Space, Cap 1 (LazyPlus Dot),
                   Alt (Lit ''ORDER BY'') (Alt (Lit ''LIMIT'') (Alt (Lit ''TOP'') Eol))]"

definition statusRe :: re where
  "statusRe = seqs [Lit ''status'', Star Space, Lit ''='', Star Space,
                    One quote, Cap 1 (Plus Word), One quote]"

definition priorityRe :: re where
  "priorityRe = seqs [Lit ''priority'', Star Space, Lit ''='', Star Space,
                      One quote, Cap 1 (Plus Word), One quote]"

definition regionRe :: re where
  "regionRe = seqs [Lit ''region'', Star Space, Lit ''='', Star Space,
                    One quote, Cap 1 (Plus Word), One quote]"

definition dueDateRe :: re where
  "dueDateRe = seqs [Lit ''due_date'', Star Space, Lit ''<'', Star Space, currentDate]"

definition scheduledDateRe :: re where
  "scheduledDateRe = seqs [Lit ''scheduled_date'', Star Space, Lit ''<'', Star Space, currentDate]"

definition quantityRe :: re where
  "quantityRe = seqs [Lit ''quantity_on_hand'', Star Space, Lit ''<='', Star Space,
                      Lit ''reorder_level'']"

definition quarterRe :: re where
  "quarterRe = seqs [Lit ''order_date'', Star Space, Lit ''>='', Star Space,
                     Lit ''DATEADD(quarter,'', Star Space, Lit ''-1'']"

definition delayedOrRe :: re where
  "delayedOrRe = seqs [Lit ''status'', Star Space, Lit ''='', Star Space,
                       One quote, Lit ''delayed'', One quote, Plus Space, Lit ''OR'']"

text \<open>\<open>m[n]\<close> of a match: the captured string, or \<open>undefined\<close>.\<close>

definition groupVal :: "captures \<Rightarrow> nat \<Rightarrow> jsval" where
  "groupVal m n = (case capture m n of None \<Rightarrow> Undefined | Some s \<Rightarrow> Str s)"

definition groupText :: "captures \<Rightarrow> nat \<Rightarrow> string" where
  "groupText m n = (case capture m n of None \<Rightarrow> [] | Some s \<Rightarrow> s)"

text \<open>
  The callback of \<open>data.filter\<close> is a chain of \<open>if (...) return false\<close> ending in
  \<open>return true\<close>. Each definition below is one link of the chain and holds when that
  link does not return \<open>false\<close>; the row is kept when all hold.
\<close>

definition statusCheck :: "string \<Rightarrow> row \<Rightarrow> bool" where
  "statusCheck whereClause r =
     (case search statusRe whereClause of
        None \<Rightarrow> True
      | Some statusMatch \<Rightarrow> \<not> (getField r ''status'' \<noteq> groupVal statusMatch 1))"

definition priorityCheck :: "string \<Rightarrow> row \<Rightarrow> bool" where
  "priorityCheck whereClause r =
     (case search priorityRe whereClause of
        None \<Rightarrow> True
      | Some priorityMatch \<Rightarrow> \<not> (getField r ''priority'' \<noteq> groupVal priorityMatch 1))"

definition regionCheck :: "string \<Rightarrow> row \<Rightarrow> bool" where
  "regionCheck whereClause r =
     (case search regionRe whereClause of
        None \<Rightarrow> True
      | Some regionMatch \<Rightarrow> \<not> (getField r ''region'' \<noteq> groupVal regionMatch 1))"

definition dueDateCheck :: "host \<Rightarrow> string \<Rightarrow> row \<Rightarrow> bool" where
  "dueDateCheck h whereClause r =
     (case search dueDateRe whereClause of
        None \<Rightarrow> True
      | Some _ \<Rightarrow>
          (if truthy (getField r ''dueDate'')
           then \<not> numGreaterEq (getTime h (getField r ''dueDate'')) (Some (now h))
           else True))"

definition scheduledDateCheck :: "host \<Rightarrow> string \<Rightarrow> row \<Rightarrow> bool" where
  "scheduledDateCheck h whereClause r =
     (case search scheduledDateRe whereClause of
        None \<Rightarrow> True
      | Some _ \<Rightarrow>
          (if truthy (getField r ''scheduledDate'')
           then \<not> numGreaterEq (getTime h (getField r ''scheduledDate'')) (Some (now h))
           else True))"

definition quantityCheck :: "string \<Rightarrow> row \<Rightarrow> bool" where
  "quantityCheck whereClause r =
     (case search quantityRe whereClause of
        None \<Rightarrow> True
      | Some _ \<Rightarrow>
          (if truthy (getField r ''quantityOnHand'') \<and> truthy (getField r ''reorderLevel'')
           then \<not> jsGreater (getField r ''quantityOnHand'') (getField r ''reorderLevel'')
           else True))"

definition quarterCheck :: "host \<Rightarrow> string \<Rightarrow> row \<Rightarrow> bool" where
  "quarterCheck h whereClause r =
     (case search quarterRe whereClause of
        None \<Rightarrow> True
      | Some _ \<Rightarrow>
          (if truthy (getField r ''orderDate'')
           then \<not> numLess (getTime h (getField r ''orderDate'')) (Some (threeMonthsAgo h))
           else True))"

definition delayedOrCheck :: "host \<Rightarrow> string \<Rightarrow> row \<Rightarrow> bool" where
  "delayedOrCheck h whereClause r =
     (case search delayedOrRe whereClause of
        None \<Rightarrow> True
      | Some _ \<Rightarrow>
          (let isDelayed = (getField r ''status'' = Str ''delayed'');
               isOverdue = (getField r ''status'' = Str ''in-progress''
                            \<and> truthy (getField r ''scheduledDate'')
                            \<and> numLess (getTime h (getField r ''scheduledDate'')) (Some (now h)))
           in \<not> (\<not> isDelayed \<and> \<not> isOverdue)))"

text \<open>The links after the status equality, in order.\<close>

definition laterChecks :: "host \<Rightarrow> string \<Rightarrow> row \<Rightarrow> bool" where
  "laterChecks h whereClause r =
     (priorityCheck whereClause r \<and> regionCheck whereClause r
      \<and> dueDateCheck h whereClause r \<and> scheduledDateCheck h whereClause r
      \<and> quantityCheck whereClause r \<and> quarterCheck h whereClause r
      \<and> delayedOrCheck h whereClause r)"

definition keepRow :: "host \<Rightarrow> string \<Rightarrow> row \<Rightarrow> bool" where
  "keepRow h whereClause r = (statusCheck whereClause r \<and> laterChecks h whereClause r)"

text \<open>The text between \<open>WHERE\<close> and the clause that ends it, trimmed.\<close>

definition whereClauseOf :: "string \<Rightarrow> string option" where
  "whereClauseOf sql =
     (case search whereRe sql of
        None \<Rightarrow> None
      | Some whereMatch \<Rightarrow> Some (trim (groupText whereMatch 1)))"

definition applyWhereConditions :: "host \<Rightarrow> row list \<Rightarrow> string \<Rightarrow> row list" where
  "applyWhereConditions h data sql =
     (case whereClauseOf sql of
        None \<Rightarrow> data
      | Some whereClause \<Rightarrow> filter (keepRow h whereClause) data)"

section \<open>The sort stage\<close>

definition orderRe :: re where
  "orderRe = seqs [Lit ''ORDER BY'', Plus Space, Cap 1 (Plus Word),
                   Opt (Seq (Plus Space) (Cap 2 (Alt (Lit ''ASC'') (Lit ''DESC''))))]"

definition mapping :: "(string \<times> string) list" where
  "mapping =
     [(''order_id'', ''orderId''),
      (''order_number'', ''orderNumber''),
      (''customer_name'', ''customerName''),
      (''order_date'', ''orderDate''),
      (''total_amount'', ''totalAmount''),
      (''sales_rep'', ''salesRep''),
      (''work_order_id'', ''workOrderId''),
      (''work_order_number'', ''workOrderNumber''),
      (''assigned_to'', ''assignedTo''),
      (''scheduled_date'', ''scheduledDate''),
      (''completion_date'', ''completionDate''),
      (''invoice_id'', ''invoiceId''),
      (''invoice_number'', ''invoiceNumber''),
      (''vendor_name'', ''vendorName''),
      (''invoice_date'', ''invoiceDate''),
      (''due_date'', ''dueDate''),
      (''payment_terms'', ''paymentTerms''),
      (''item_id'', ''itemId''),
      (''item_code'', ''itemCode''),
      (''item_name'', ''itemName''),
      (''quantity_on_hand'', ''quantityOnHand''),
      (''unit_price'', ''unitPrice''),
      (''reorder_level'', ''reorderLevel'')]"

text \<open>
  \<open>mapping[sqlColumn.toLowerCase()] || sqlColumn\<close>. The table is an object literal, so
  a key that names a member of \<open>Object.prototype\<close> finds that member, which is truthy;
  used as a property key it is its own text.
\<close>

definition mapColumnName :: "string \<Rightarrow> string" where
  "mapColumnName sqlColumn =
     (case map_of mapping (toLowerCase sqlColumn) of
        Some name \<Rightarrow> name
      | None \<Rightarrow>
          (case map_of objectPrototype (toLowerCase sqlColumn) of
             Some text \<Rightarrow> text
           | None \<Rightarrow> sqlColumn))"

text \<open>\<open>toUpperCase\<close>, applied to the direction keyword only.\<close>

definition toUpperCase :: "string \<Rightarrow> string" where
  "toUpperCase s = map canonicalize s"

definition isNullish :: "jsval \<Rightarrow> bool" where
  "isNullish v = (v = Null \<or> v = Undefined)"

text \<open>\<open>aVal instanceof Date || typeof aVal === 'string' && !isNaN(Date.parse(aVal))\<close>\<close>

fun isDateLike :: "host \<Rightarrow> jsval \<Rightarrow> bool" where
  "isDateLike h (DateV t) = True"
| "isDateLike h (Str s) = (dateParse h s \<noteq> None)"
| "isDateLike h v = False"

text \<open>\<open>typeof aVal === 'number' || !isNaN(parseFloat(aVal))\<close>\<close>

fun isNumberLike :: "host \<Rightarrow> jsval \<Rightarrow> bool" where
  "isNumberLike h (Num n) = True"
| "isNumberLike h v = (parseFloatOf h v \<noteq> None)"

text \<open>The comparison function handed to \<open>sort\<close>; \<open>None\<close> is \<open>NaN\<close>.\<close>

definition compareRows :: "host \<Rightarrow> string \<Rightarrow> string \<Rightarrow> row \<Rightarrow> row \<Rightarrow> real option" where
  "compareRows h column direction a b =
     (let aVal = getField a column; bVal = getField b column in
      if isNullish aVal then Some 1
      else if isNullish bVal then Some (- 1)
      else if isDateLike h aVal then
        (let aDate = map_option real_of_int (getTime h aVal);
             bDate = map_option real_of_int (getTime h bVal)
         in if direction = ''DESC'' then numSub bDate aDate else numSub aDate bDate)
      else if isNumberLike h aVal then
        (let aNum = parseFloatOf h aVal; bNum = parseFloatOf h bVal
         in if direction = ''DESC'' then numSub bNum aNum else numSub aNum bNum)
      else
        (let comparison = localeCompare h (toString h aVal) (toString h bVal)
         in Some (real_of_int (if direction = ''DESC'' then - comparison else comparison))))"

text \<open>
  \<open>Array.prototype.sort\<close> is the host's: a stable sort, whose result is fixed by the
  language when the comparison function is consistent, and left to the implementation
  otherwise. It is modelled as a stable insertion sort: each element in turn moves
  left past the elements it compares below (a negative result; \<open>NaN\<close> counts as
  zero). On a consistent comparison function every stable sort gives this result.
  \<open>insertLeft\<close> works on the sorted prefix last element first.
\<close>

definition negative :: "real option \<Rightarrow> bool" where
  "negative v = (case v of None \<Rightarrow> False | Some x \<Rightarrow> x < 0)"

fun insertLeft :: "('a \<Rightarrow> 'a \<Rightarrow> real option) \<Rightarrow> 'a \<Rightarrow> 'a list \<Rightarrow> 'a list" where
  "insertLeft cmp x [] = [x]"
| "insertLeft cmp x (y # ys) =
     (if negative (cmp x y) then y # insertLeft cmp x ys else x # y # ys)"

definition arraySort :: "('a \<Rightarrow> 'a \<Rightarrow> real option) \<Rightarrow> 'a list \<Rightarrow> 'a list" where
  "arraySort cmp xs = rev (foldl (\<lambda>acc x. insertLeft cmp x acc) [] xs)"

definition orderDirection :: "captures \<Rightarrow> string" where
  "orderDirection orderMatch =
     toUpperCase (if truthy (groupVal orderMatch 2) then groupText orderMatch 2 else ''ASC'')"

definition applyOrderBy :: "host \<Rightarrow> row list \<Rightarrow> string \<Rightarrow> row list" where
  "applyOrderBy h data sql =
     (case search orderRe sql of
        None \<Rightarrow> data
      | Some orderMatch \<Rightarrow>
          (let column = mapColumnName (groupText orderMatch 1);
               direction = orderDirection orderMatch
           in arraySort (compareRows h column direction) data))"

section \<open>The limit stage\<close>

definition limitRe :: re where
  "limitRe = seqs [Lit ''LIMIT'', Plus Space, Cap 1 (Plus Digit)]"

definition topRe :: re where
  "topRe = seqs [Lit ''SELECT'', Plus Space, Lit ''TOP'', Plus Space, Cap 1 (Plus Digit)]"

text \<open>
  \<open>parseInt\<close> on a string of decimal digits. \<open>slice(0, n)\<close> is \<open>take n\<close>; the rounding of
  a number beyond \<open>2^53\<close> does not show, an array being shorter than that.
\<close>

definition parseInt :: "string \<Rightarrow> nat" where
  "parseInt ds = foldl (\<lambda>n c. 10 * n + (code c - 48)) 0 ds"

definition applyLimit :: "row list \<Rightarrow> string \<Rightarrow> row list" where
  "applyLimit data sql =
     (case search limitRe sql of
        Some limitMatch \<Rightarrow> take (parseInt (groupText limitMatch 1)) data
      | None \<Rightarrow>
          (case search topRe sql of
             Some topMatch \<Rightarrow> take (parseInt (groupText topMatch 1)) data
           | None \<Rightarrow> data))"

section \<open>The record store\<close>

text \<open>
  \<open>MemStorage\<close> holds its four collections as arrays, which are references: two
  variables may name one array, and \<open>sort\<close> changes the array it is called on. The
  arrays therefore live in a store of their own, and a \<open>machine\<close> is the object
  \<open>storage\<close> together with that store.
\<close>

type_synonym ref = nat

record MemStorage =
  queries :: "string \<rightharpoonup> Query"
  salesOrders :: ref
  workOrders :: ref
  invoices :: ref
  inventoryItems :: ref

record machine =
  storage :: MemStorage
  arrays :: "ref \<rightharpoonup> row list"
  nextRef :: ref

definition deref :: "machine \<Rightarrow> ref \<Rightarrow> row list" where
  "deref m a = (case arrays m a of None \<Rightarrow> [] | Some xs \<Rightarrow> xs)"

text \<open>A new array (\<open>[...xs]\<close>, \<open>filter\<close>, \<open>slice\<close>).\<close>

definition newArray :: "machine \<Rightarrow> row list \<Rightarrow> ref \<times> machine" where
  "newArray m xs =
     (nextRef m, m\<lparr>arrays := (arrays m)(nextRef m \<mapsto> xs), nextRef := Suc (nextRef m)\<rparr>)"

text \<open>Assignment to the elements of an existing array (\<open>sort\<close>).\<close>

definition writeArray :: "machine \<Rightarrow> ref \<Rightarrow> row list \<Rightarrow> machine" where
  "writeArray m a xs = m\<lparr>arrays := (arrays m)(a \<mapsto> xs)\<rparr>"

text \<open>
  The three stages on references. Each returns the reference it hands on:
  \<open>filter\<close> and \<open>slice\<close> make a new array, \<open>sort\<close> works in place, and a stage
  whose pattern is not found returns its argument.
\<close>

definition applyWhereConditions_ref :: "host \<Rightarrow> machine \<Rightarrow> ref \<Rightarrow> string \<Rightarrow> ref \<times> machine" where
  "applyWhereConditions_ref h m data sql =
     (case whereClauseOf sql of
        None \<Rightarrow> (data, m)
      | Some whereClause \<Rightarrow> newArray m (filter (keepRow h whereClause) (deref m data)))"

definition applyOrderBy_ref :: "host \<Rightarrow> machine \<Rightarrow> ref \<Rightarrow> string \<Rightarrow> ref \<times> machine" where
  "applyOrderBy_ref h m data sql =
     (case search orderRe sql of
        None \<Rightarrow> (data, m)
      | Some orderMatch \<Rightarrow> (data, writeArray m data (applyOrderBy h (deref m data) sql)))"

definition applyLimit_ref :: "machine \<Rightarrow> ref \<Rightarrow> string \<Rightarrow> ref \<times> machine" where
  "applyLimit_ref m data sql =
     (if search limitRe sql = None \<and> search topRe sql = None then (data, m)
      else newArray m (applyLimit (deref m data) sql))"

datatype error =
    UnsupportedStatement
  | UnknownTable
  | ExecutionError string string

text \<open>
  The body of \<open>try\<close>, from the copy of the chosen collection on. No stage throws on
  rows of the schema, so the \<open>catch\<close> that wraps a failure into \<open>ExecutionError\<close> is
  never entered.
\<close>

definition runStages :: "host \<Rightarrow> machine \<Rightarrow> ref \<Rightarrow> string \<Rightarrow> (error + row list) \<times> machine" where
  "runStages h m collection sql =
     (let (data0, m0) = newArray m (deref m collection);
          (data1, m1) = applyWhereConditions_ref h m0 data0 sql;
          (data2, m2) = applyOrderBy_ref h m1 data1 sql;
          (data3, m3) = applyLimit_ref m2 data2 sql
      in (Inr (deref m3 data3), m3))"

definition executeSqlQuery :: "host \<Rightarrow> machine \<Rightarrow> string \<Rightarrow> (error + row list) \<times> machine" where
  "executeSqlQuery h m sql =
     (let lowerSql = trim (toLowerCase sql) in
      if \<not> startsWith lowerSql ''select'' then (Inl UnsupportedStatement, m)
      else if includes_str lowerSql ''sales_orders'' then
        runStages h m (salesOrders (storage m)) sql
      else if includes_str lowerSql ''work_orders'' then
        runStages h m (workOrders (storage m)) sql
      else if includes_str lowerSql ''invoices'' then
        runStages h m (invoices (storage m)) sql
      else if includes_str lowerSql ''inventory_items'' then
        runStages h m (inventoryItems (storage m)) sql
      else (Inl UnknownTable, m))"

section \<open>The query log\<close>


definition getQuery :: "MemStorage \<Rightarrow> string \<Rightarrow> Query option" where
  "getQuery this i = queries this i"







section \<open>Fixtures\<close>

text \<open>
  A host whose clock stands at 2025-01-01T00:00:00Z and whose \<open>Date.parse\<close> and
  \<open>parseFloat\<close> recognise nothing, three work orders and two inventory items, and a
  machine holding them.
\<close>

definition plainHost :: host where
  "plainHost =
     \<lparr> now = 1735689600000,
       threeMonthsAgo = 1727740800000,
       dateParse = (\<lambda>s. None),
       parseFloat = (\<lambda>s. None),
       dateToString = (\<lambda>t. []),
       localeCompare = (\<lambda>a b. 0) \<rparr>"

definition woDelayed :: row where
  "woDelayed = WorkOrderRow
     \<lparr> workOrderId = ''WO-2001'', workOrderNumber = ''WRK-2024-0001'',
       description = ''Work order for Assembly operations'', assignedTo = Some ''Team Alpha'',
       status = ''delayed'', priority = ''high'',
       scheduledDate = Some 1704067200000, completionDate = None,
       department = Some ''Assembly'' \<rparr>"

definition woInProgress :: row where
  "woInProgress = WorkOrderRow
     \<lparr> workOrderId = ''WO-2002'', workOrderNumber = ''WRK-2024-0002'',
       description = ''Work order for Production operations'', assignedTo = Some ''Team Beta'',
       status = ''in-progress'', priority = ''medium'',
       scheduledDate = Some 1706745600000, completionDate = None,
       department = Some ''Production'' \<rparr>"

definition woCompleted :: row where
  "woCompleted = WorkOrderRow
     \<lparr> workOrderId = ''WO-2003'', workOrderNumber = ''WRK-2024-0003'',
       description = ''Work order for Maintenance operations'', assignedTo = None,
       status = ''completed'', priority = ''low'',
       scheduledDate = Some 1709251200000, completionDate = Some 1709856000000,
       department = Some ''Maintenance'' \<rparr>"

definition inventoryItem :: "string \<Rightarrow> int \<Rightarrow> string \<Rightarrow> int option \<Rightarrow> row" where
  "inventoryItem i qty price reorder = InventoryItemRow
     \<lparr> itemId = i, itemCode = ''ITEM-0001'', itemName = ''Inventory Item'',
       category = Some ''Tools'', quantityOnHand = qty, unitPrice = price,
       reorderLevel = reorder, warehouse = Some ''Warehouse A'' \<rparr>"

definition itemLow :: row where
  "itemLow = inventoryItem ''ITM-4001'' 10 ''19.99'' (Some 50)"

definition itemHigh :: row where
  "itemHigh = inventoryItem ''ITM-4002'' 80 ''5.00'' (Some 20)"

definition fixtureMachine :: machine where
  "fixtureMachine =
     \<lparr> storage = \<lparr> queries = Map.empty, salesOrders = 0, workOrders = 1,
                     invoices = 2, inventoryItems = 3 \<rparr>,
       arrays = [0 \<mapsto> [], 1 \<mapsto> [woDelayed, woInProgress, woCompleted],
                 2 \<mapsto> [], 3 \<mapsto> [itemLow, itemHigh]],
       nextRef = 4 \<rparr>"

definition itemZero :: row where
  "itemZero = inventoryItem ''ITM-4003'' 10 ''7.50'' (Some 0)"

text \<open>The queries of the scenarios, and the text each has between \<open>WHERE\<close> and its end.\<close>

definition sqlDelayed :: string where
  "sqlDelayed = ''SELECT * FROM work_orders WHERE status = '' @ [CHR 0x27] @ ''delayed''
     @ [CHR 0x27] @ '' OR (status = '' @ [CHR 0x27] @ ''in-progress'' @ [CHR 0x27]
     @ '' AND scheduled_date < GETDATE()) ORDER BY scheduled_date ASC LIMIT 20''"

definition clauseDelayed :: string where
  "clauseDelayed = ''status = '' @ [CHR 0x27] @ ''delayed'' @ [CHR 0x27] @ '' OR (status = ''
     @ [CHR 0x27] @ ''in-progress'' @ [CHR 0x27] @ '' AND scheduled_date < GETDATE())''"

definition sqlInProgress :: string where
  "sqlInProgress = ''SELECT * FROM work_orders WHERE status = '' @ [CHR 0x27]
     @ ''in-progress'' @ [CHR 0x27]"

definition clauseInProgress :: string where
  "clauseInProgress = ''status = '' @ [CHR 0x27] @ ''in-progress'' @ [CHR 0x27]"

definition sqlLowStock :: string where
  "sqlLowStock = ''SELECT * FROM inventory_items WHERE quantity_on_hand <= reorder_level''"

definition clauseLowStock :: string where
  "clauseLowStock = ''quantity_on_hand <= reorder_level''"

definition sqlByDateDesc :: string where
  "sqlByDateDesc = ''SELECT * FROM work_orders ORDER BY scheduled_date DESC''"



definition sqlLimitWord :: string where
  "sqlLimitWord = ''SELECT * FROM work_orders LIMIT abc''"

definition sqlLimitMixed :: string where
  "sqlLimitMixed = ''SELECT * FROM work_orders LIMIT 2abc''"





section \<open>Notions for the sort stage\<close>


definition key :: "host \<Rightarrow> string \<Rightarrow> row \<Rightarrow> real" where
  "key h column r = (case parseFloatOf h (getField r column) of None \<Rightarrow> 0 | Some x \<Rightarrow> x)"


section \<open>Notions for the query log\<close>






section \<open>Evaluation of the character functions\<close>

text \<open>
  The character functions on tab, line feed, carriage return and the printable ASCII
  characters, as rewrite rules for running the matcher on a given string.
\<close>

lemma canonicalize_ascii:
  "canonicalize (CHR 0x09) = CHR 0x09"
  "canonicalize (CHR 0x0A) = CHR 0x0A"
  "canonicalize (CHR 0x0D) = CHR 0x0D"
  "canonicalize (CHR '' '') = CHR '' ''"
  "canonicalize (CHR ''!'') = CHR ''!''"
  "canonicalize (CHR 0x22) = CHR 0x22"
  "canonicalize (CHR ''#'') = CHR ''#''"
  "canonicalize (CHR ''$'') = CHR ''$''"
  "canonicalize (CHR ''%'') = CHR ''%''"
  "canonicalize (CHR ''&'') = CHR ''&''"
  "canonicalize (CHR 0x27) = CHR 0x27"
  "canonicalize (CHR ''('') = CHR ''(''"
  "canonicalize (CHR '')'') = CHR '')''"
  "canonicalize (CHR ''*'') = CHR ''*''"
  "canonicalize (CHR ''+'') = CHR ''+''"
  "canonicalize (CHR '','') = CHR '',''"
  "canonicalize (CHR ''-'') = CHR ''-''"
  "canonicalize (CHR ''.'') = CHR ''.''"
  "canonicalize (CHR ''/'') = CHR ''/''"
  "canonicalize (CHR ''0'') = CHR ''0''"
  "canonicalize (CHR ''1'') = CHR ''1''"
  "canonicalize (CHR ''2'') = CHR ''2''"
  "canonicalize (CHR ''3'') = CHR ''3''"
  "canonicalize (CHR ''4'') = CHR ''4''"
  "canonicalize (CHR ''5'') = CHR ''5''"
  "canonicalize (CHR ''6'') = CHR ''6''"
  "canonicalize (CHR ''7'') = CHR ''7''"
  "canonicalize (CHR ''8'') = CHR ''8''"
  "canonicalize (CHR ''9'') = CHR ''9''"
  "canonicalize (CHR '':'') = CHR '':''"
  "canonicalize (CHR '';'') = CHR '';''"
  "canonicalize (CHR ''<'') = CHR ''<''"
  "canonicalize (CHR ''='') = CHR ''=''"
  "canonicalize (CHR ''>'') = CHR ''>''"
  "canonicalize (CHR ''?'') = CHR ''?''"
  "canonicalize (CHR ''@'') = CHR ''@''"
  "canonicalize (CHR ''A'') = CHR ''A''"
  "canonicalize (CHR ''B'') = CHR ''B''"
  "canonicalize (CHR ''C'') = CHR ''C''"
  "canonicalize (CHR ''D'') = CHR ''D''"
  "canonicalize (CHR ''E'') = CHR ''E''"
  "canonicalize (CHR ''F'') = CHR ''F''"
  "canonicalize (CHR ''G'') = CHR ''G''"
  "canonicalize (CHR ''H'') = CHR ''H''"
  "canonicalize (CHR ''I'') = CHR ''I''"
  "canonicalize (CHR ''J'') = CHR ''J''"
  "canonicalize (CHR ''K'') = CHR ''K''"
  "canonicalize (CHR ''L'') = CHR ''L''"
  "canonicalize (CHR ''M'') = CHR ''M''"
  "canonicalize (CHR ''N'') = CHR ''N''"
  "canonicalize (CHR ''O'') = CHR ''O''"
  "canonicalize (CHR ''P'') = CHR ''P''"
  "canonicalize (CHR ''Q'') = CHR ''Q''"
  "canonicalize (CHR ''R'') = CHR ''R''"
  "canonicalize (CHR ''S'') = CHR ''S''"
  "canonicalize (CHR ''T'') = CHR ''T''"
  "canonicalize (CHR ''U'') = CHR ''U''"
  "canonicalize (CHR ''V'') = CHR ''V''"
  "canonicalize (CHR ''W'') = CHR ''W''"
  "canonicalize (CHR ''X'') = CHR ''X''"
  "canonicalize (CHR ''Y'') = CHR ''Y''"
  "canonicalize (CHR ''Z'') = CHR ''Z''"
  "canonicalize (CHR ''['') = CHR ''[''"
  "canonicalize (CHR 0x5C) = CHR 0x5C"
  "canonicalize (CHR '']'') = CHR '']''"
  "canonicalize (CHR ''^'') = CHR ''^''"
  "canonicalize (CHR ''_'') = CHR ''_''"
  "canonicalize (CHR 0x60) = CHR 0x60"
  "canonicalize (CHR ''a'') = CHR ''A''"
  "canonicalize (CHR ''b'') = CHR ''B''"
  "canonicalize (CHR ''c'') = CHR ''C''"
  "canonicalize (CHR ''d'') = CHR ''D''"
  "canonicalize (CHR ''e'') = CHR ''E''"
  "canonicalize (CHR ''f'') = CHR ''F''"
  "canonicalize (CHR ''g'') = CHR ''G''"
  "canonicalize (CHR ''h'') = CHR ''H''"
  "canonicalize (CHR ''i'') = CHR ''I''"
  "canonicalize (CHR ''j'') = CHR ''J''"
  "canonicalize (CHR ''k'') = CHR ''K''"
  "canonicalize (CHR ''l'') = CHR ''L''"
  "canonicalize (CHR ''m'') = CHR ''M''"
  "canonicalize (CHR ''n'') = CHR ''N''"
  "canonicalize (CHR ''o'') = CHR ''O''"
  "canonicalize (CHR ''p'') = CHR ''P''"
  "canonicalize (CHR ''q'') = CHR ''Q''"
  "canonicalize (CHR ''r'') = CHR ''R''"
  "canonicalize (CHR ''s'') = CHR ''S''"
  "canonicalize (CHR ''t'') = CHR ''T''"
  "canonicalize (CHR ''u'') = CHR ''U''"
  "canonicalize (CHR ''v'') = CHR ''V''"
  "canonicalize (CHR ''w'') = CHR ''W''"
  "canonicalize (CHR ''x'') = CHR ''X''"
  "canonicalize (CHR ''y'') = CHR ''Y''"
  "canonicalize (CHR ''z'') = CHR ''Z''"
  "canonicalize (CHR ''{'') = CHR ''{''"
  "canonicalize (CHR ''|'') = CHR ''|''"
  "canonicalize (CHR ''}'') = CHR ''}''"
  "canonicalize (CHR ''~'') = CHR ''~''"
  by (simp_all add: canonicalize_def code_def char_of_eq_iff)

lemma toLowerChar_ascii:
  "toLowerChar (CHR 0x09) = CHR 0x09"
  "toLowerChar (CHR 0x0A) = CHR 0x0A"
  "toLowerChar (CHR 0x0D) = CHR 0x0D"
  "toLowerChar (CHR '' '') = CHR '' ''"
  "toLowerChar (CHR ''!'') = CHR ''!''"
  "toLowerChar (CHR 0x22) = CHR 0x22"
  "toLowerChar (CHR ''#'') = CHR ''#''"
  "toLowerChar (CHR ''$'') = CHR ''$''"
  "toLowerChar (CHR ''%'') = CHR ''%''"
  "toLowerChar (CHR ''&'') = CHR ''&''"
  "toLowerChar (CHR 0x27) = CHR 0x27"
  "toLowerChar (CHR ''('') = CHR ''(''"
  "toLowerChar (CHR '')'') = CHR '')''"
  "toLowerChar (CHR ''*'') = CHR ''*''"
  "toLowerChar (CHR ''+'') = CHR ''+''"
  "toLowerChar (CHR '','') = CHR '',''"
  "toLowerChar (CHR ''-'') = CHR ''-''"
  "toLowerChar (CHR ''.'') = CHR ''.''"
  "toLowerChar (CHR ''/'') = CHR ''/''"
  "toLowerChar (CHR ''0'') = CHR ''0''"
  "toLowerChar (CHR ''1'') = CHR ''1''"
  "toLowerChar (CHR ''2'') = CHR ''2''"
  "toLowerChar (CHR ''3'') = CHR ''3''"
  "toLowerChar (CHR ''4'') = CHR ''4''"
  "toLowerChar (CHR ''5'') = CHR ''5''"
  "toLowerChar (CHR ''6'') = CHR ''6''"
  "toLowerChar (CHR ''7'') = CHR ''7''"
  "toLowerChar (CHR ''8'') = CHR ''8''"
  "toLowerChar (CHR ''9'') = CHR ''9''"
  "toLowerChar (CHR '':'') = CHR '':''"
  "toLowerChar (CHR '';'') = CHR '';''"
  "toLowerChar (CHR ''<'') = CHR ''<''"
  "toLowerChar (CHR ''='') = CHR ''=''"
  "toLowerChar (CHR ''>'') = CHR ''>''"
  "toLowerChar (CHR ''?'') = CHR ''?''"
  "toLowerChar (CHR ''@'') = CHR ''@''"
  "toLowerChar (CHR ''A'') = CHR ''a''"
  "toLowerChar (CHR ''B'') = CHR ''b''"
  "toLowerChar (CHR ''C'') = CHR ''c''"
  "toLowerChar (CHR ''D'') = CHR ''d''"
  "toLowerChar (CHR ''E'') = CHR ''e''"
  "toLowerChar (CHR ''F'') = CHR ''f''"
  "toLowerChar (CHR ''G'') = CHR ''g''"
  "toLowerChar (CHR ''H'') = CHR ''h''"
  "toLowerChar (CHR ''I'') = CHR ''i''"
  "toLowerChar (CHR ''J'') = CHR ''j''"
  "toLowerChar (CHR ''K'') = CHR ''k''"
  "toLowerChar (CHR ''L'') = CHR ''l''"
  "toLowerChar (CHR ''M'') = CHR ''m''"
  "toLowerChar (CHR ''N'') = CHR ''n''"
  "toLowerChar (CHR ''O'') = CHR ''o''"
  "toLowerChar (CHR ''P'') = CHR ''p''"
  "toLowerChar (CHR ''Q'') = CHR ''q''"
  "toLowerChar (CHR ''R'') = CHR ''r''"
  "toLowerChar (CHR ''S'') = CHR ''s''"
  "toLowerChar (CHR ''T'') = CHR ''t''"
  "toLowerChar (CHR ''U'') = CHR ''u''"
  "toLowerChar (CHR ''V'') = CHR ''v''"
  "toLowerChar (CHR ''W'') = CHR ''w''"
  "toLowerChar (CHR ''X'') = CHR ''x''"
  "toLowerChar (CHR ''Y'') = CHR ''y''"
  "toLowerChar (CHR ''Z'') = CHR ''z''"
  "toLowerChar (CHR ''['') = CHR ''[''"
  "toLowerChar (CHR 0x5C) = CHR 0x5C"
  "toLowerChar (CHR '']'') = CHR '']''"
  "toLowerChar (CHR ''^'') = CHR ''^''"
  "toLowerChar (CHR ''_'') = CHR ''_''"
  "toLowerChar (CHR 0x60) = CHR 0x60"
  "toLowerChar (CHR ''a'') = CHR ''a''"
  "toLowerChar (CHR ''b'') = CHR ''b''"
  "toLowerChar (CHR ''c'') = CHR ''c''"
  "toLowerChar (CHR ''d'') = CHR ''d''"
  "toLowerChar (CHR ''e'') = CHR ''e''"
  "toLowerChar (CHR ''f'') = CHR ''f''"
  "toLowerChar (CHR ''g'') = CHR ''g''"
  "toLowerChar (CHR ''h'') = CHR ''h''"
  "toLowerChar (CHR ''i'') = CHR ''i''"
  "toLowerChar (CHR ''j'') = CHR ''j''"
  "toLowerChar (CHR ''k'') = CHR ''k''"
  "toLowerChar (CHR ''l'') = CHR ''l''"
  "toLowerChar (CHR ''m'') = CHR ''m''"
  "toLowerChar (CHR ''n'') = CHR ''n''"
  "toLowerChar (CHR ''o'') = CHR ''o''"
  "toLowerChar (CHR ''p'') = CHR ''p''"
  "toLowerChar (CHR ''q'') = CHR ''q''"
  "toLowerChar (CHR ''r'') = CHR ''r''"
  "toLowerChar (CHR ''s'') = CHR ''s''"
  "toLowerChar (CHR ''t'') = CHR ''t''"
  "toLowerChar (CHR ''u'') = CHR ''u''"
  "toLowerChar (CHR ''v'') = CHR ''v''"
  "toLowerChar (CHR ''w'') = CHR ''w''"
  "toLowerChar (CHR ''x'') = CHR ''x''"
  "toLowerChar (CHR ''y'') = CHR ''y''"
  "toLowerChar (CHR ''z'') = CHR ''z''"
  "toLowerChar (CHR ''{'') = CHR ''{''"
  "toLowerChar (CHR ''|'') = CHR ''|''"
  "toLowerChar (CHR ''}'') = CHR ''}''"
  "toLowerChar (CHR ''~'') = CHR ''~''"
  by (simp_all add: toLowerChar_def code_def char_of_eq_iff)

lemma isWhiteSpace_ascii:
  "isWhiteSpace (CHR 0x09) = True"
  "isWhiteSpace (CHR 0x0A) = True"
  "isWhiteSpace (CHR 0x0D) = True"
  "isWhiteSpace (CHR '' '') = True"
  "isWhiteSpace (CHR ''!'') = False"
  "isWhiteSpace (CHR 0x22) = False"
  "isWhiteSpace (CHR ''#'') = False"
  "isWhiteSpace (CHR ''$'') = False"
  "isWhiteSpace (CHR ''%'') = False"
  "isWhiteSpace (CHR ''&'') = False"
  "isWhiteSpace (CHR 0x27) = False"
  "isWhiteSpace (CHR ''('') = False"
  "isWhiteSpace (CHR '')'') = False"
  "isWhiteSpace (CHR ''*'') = False"
  "isWhiteSpace (CHR ''+'') = False"
  "isWhiteSpace (CHR '','') = False"
  "isWhiteSpace (CHR ''-'') = False"
  "isWhiteSpace (CHR ''.'') = False"
  "isWhiteSpace (CHR ''/'') = False"
  "isWhiteSpace (CHR ''0'') = False"
  "isWhiteSpace (CHR ''1'') = False"
  "isWhiteSpace (CHR ''2'') = False"
  "isWhiteSpace (CHR ''3'') = False"
  "isWhiteSpace (CHR ''4'') = False"
  "isWhiteSpace (CHR ''5'') = False"
  "isWhiteSpace (CHR ''6'') = False"
  "isWhiteSpace (CHR ''7'') = False"
  "isWhiteSpace (CHR ''8'') = False"
  "isWhiteSpace (CHR ''9'') = False"
  "isWhiteSpace (CHR '':'') = False"
  "isWhiteSpace (CHR '';'') = False"
  "isWhiteSpace (CHR ''<'') = False"
  "isWhiteSpace (CHR ''='') = False"
  "isWhiteSpace (CHR ''>'') = False"
  "isWhiteSpace (CHR ''?'') = False"
  "isWhiteSpace (CHR ''@'') = False"
  "isWhiteSpace (CHR ''A'') = False"
  "isWhiteSpace (CHR ''B'') = False"
  "isWhiteSpace (CHR ''C'') = False"
  "isWhiteSpace (CHR ''D'') = False"
  "isWhiteSpace (CHR ''E'') = False"
  "isWhiteSpace (CHR ''F'') = False"
  "isWhiteSpace (CHR ''G'') = False"
  "isWhiteSpace (CHR ''H'') = False"
  "isWhiteSpace (CHR ''I'') = False"
  "isWhiteSpace (CHR ''J'') = False"
  "isWhiteSpace (CHR ''K'') = False"
  "isWhiteSpace (CHR ''L'') = False"
  "isWhiteSpace (CHR ''M'') = False"
  "isWhiteSpace (CHR ''N'') = False"
  "isWhiteSpace (CHR ''O'') = False"
  "isWhiteSpace (CHR ''P'') = False"
  "isWhiteSpace (CHR ''Q'') = False"
  "isWhiteSpace (CHR ''R'') = False"
  "isWhiteSpace (CHR ''S'') = False"
  "isWhiteSpace (CHR ''T'') = False"
  "isWhiteSpace (CHR ''U'') = False"
  "isWhiteSpace (CHR ''V'') = False"
  "isWhiteSpace (CHR ''W'') = False"
  "isWhiteSpace (CHR ''X'') = False"
  "isWhiteSpace (CHR ''Y'') = False"
  "isWhiteSpace (CHR ''Z'') = False"
  "isWhiteSpace (CHR ''['') = False"
  "isWhiteSpace (CHR 0x5C) = False"
  "isWhiteSpace (CHR '']'') = False"
  "isWhiteSpace (CHR ''^'') = False"
  "isWhiteSpace (CHR ''_'') = False"
  "isWhiteSpace (CHR 0x60) = False"
  "isWhiteSpace (CHR ''a'') = False"
  "isWhiteSpace (CHR ''b'') = False"
  "isWhiteSpace (CHR ''c'') = False"
  "isWhiteSpace (CHR ''d'') = False"
  "isWhiteSpace (CHR ''e'') = False"
  "isWhiteSpace (CHR ''f'') = False"
  "isWhiteSpace (CHR ''g'') = False"
  "isWhiteSpace (CHR ''h'') = False"
  "isWhiteSpace (CHR ''i'') = False"
  "isWhiteSpace (CHR ''j'') = False"
  "isWhiteSpace (CHR ''k'') = False"
  "isWhiteSpace (CHR ''l'') = False"
  "isWhiteSpace (CHR ''m'') = False"
  "isWhiteSpace (CHR ''n'') = False"
  "isWhiteSpace (CHR ''o'') = False"
  "isWhiteSpace (CHR ''p'') = False"
  "isWhiteSpace (CHR ''q'') = False"
  "isWhiteSpace (CHR ''r'') = False"
  "isWhiteSpace (CHR ''s'') = False"
  "isWhiteSpace (CHR ''t'') = False"
  "isWhiteSpace (CHR ''u'') = False"
  "isWhiteSpace (CHR ''v'') = False"
  "isWhiteSpace (CHR ''w'') = False"
  "isWhiteSpace (CHR ''x'') = False"
  "isWhiteSpace (CHR ''y'') = False"
  "isWhiteSpace (CHR ''z'') = False"
  "isWhiteSpace (CHR ''{'') = False"
  "isWhiteSpace (CHR ''|'') = False"
  "isWhiteSpace (CHR ''}'') = False"
  "isWhiteSpace (CHR ''~'') = False"
  by (simp_all add: isWhiteSpace_def code_def char_of_eq_iff)

lemma inCls_Word_ascii:
  "inCls Word (CHR 0x09) = False"
  "inCls Word (CHR 0x0A) = False"
  "inCls Word (CHR 0x0D) = False"
  "inCls Word (CHR '' '') = False"
  "inCls Word (CHR ''!'') = False"
  "inCls Word (CHR 0x22) = False"
  "inCls Word (CHR ''#'') = False"
  "inCls Word (CHR ''$'') = False"
  "inCls Word (CHR ''%'') = False"
  "inCls Word (CHR ''&'') = False"
  "inCls Word (CHR 0x27) = False"
  "inCls Word (CHR ''('') = False"
  "inCls Word (CHR '')'') = False"
  "inCls Word (CHR ''*'') = False"
  "inCls Word (CHR ''+'') = False"
  "inCls Word (CHR '','') = False"
  "inCls Word (CHR ''-'') = False"
  "inCls Word (CHR ''.'') = False"
  "inCls Word (CHR ''/'') = False"
  "inCls Word (CHR ''0'') = True"
  "inCls Word (CHR ''1'') = True"
  "inCls Word (CHR ''2'') = True"
  "inCls Word (CHR ''3'') = True"
  "inCls Word (CHR ''4'') = True"
  "inCls Word (CHR ''5'') = True"
  "inCls Word (CHR ''6'') = True"
  "inCls Word (CHR ''7'') = True"
  "inCls Word (CHR ''8'') = True"
  "inCls Word (CHR ''9'') = True"
  "inCls Word (CHR '':'') = False"
  "inCls Word (CHR '';'') = False"
  "inCls Word (CHR ''<'') = False"
  "inCls Word (CHR ''='') = False"
  "inCls Word (CHR ''>'') = False"
  "inCls Word (CHR ''?'') = False"
  "inCls Word (CHR ''@'') = False"
  "inCls Word (CHR ''A'') = True"
  "inCls Word (CHR ''B'') = True"
  "inCls Word (CHR ''C'') = True"
  "inCls Word (CHR ''D'') = True"
  "inCls Word (CHR ''E'') = True"
  "inCls Word (CHR ''F'') = True"
  "inCls Word (CHR ''G'') = True"
  "inCls Word (CHR ''H'') = True"
  "inCls Word (CHR ''I'') = True"
  "inCls Word (CHR ''J'') = True"
  "inCls Word (CHR ''K'') = True"
  "inCls Word (CHR ''L'') = True"
  "inCls Word (CHR ''M'') = True"
  "inCls Word (CHR ''N'') = True"
  "inCls Word (CHR ''O'') = True"
  "inCls Word (CHR ''P'') = True"
  "inCls Word (CHR ''Q'') = True"
  "inCls Word (CHR ''R'') = True"
  "inCls Word (CHR ''S'') = True"
  "inCls Word (CHR ''T'') = True"
  "inCls Word (CHR ''U'') = True"
  "inCls Word (CHR ''V'') = True"
  "inCls Word (CHR ''W'') = True"
  "inCls Word (CHR ''X'') = True"
  "inCls Word (CHR ''Y'') = True"
  "inCls Word (CHR ''Z'') = True"
  "inCls Word (CHR ''['') = False"
  "inCls Word (CHR 0x5C) = False"
  "inCls Word (CHR '']'') = False"
  "inCls Word (CHR ''^'') = False"
  "inCls Word (CHR ''_'') = True"
  "inCls Word (CHR 0x60) = False"
  "inCls Word (CHR ''a'') = True"
  "inCls Word (CHR ''b'') = True"
  "inCls Word (CHR ''c'') = True"
  "inCls Word (CHR ''d'') = True"
  "inCls Word (CHR ''e'') = True"
  "inCls Word (CHR ''f'') = True"
  "inCls Word (CHR ''g'') = True"
  "inCls Word (CHR ''h'') = True"
  "inCls Word (CHR ''i'') = True"
  "inCls Word (CHR ''j'') = True"
  "inCls Word (CHR ''k'') = True"
  "inCls Word (CHR ''l'') = True"
  "inCls Word (CHR ''m'') = True"
  "inCls Word (CHR ''n'') = True"
  "inCls Word (CHR ''o'') = True"
  "inCls Word (CHR ''p'') = True"
  "inCls Word (CHR ''q'') = True"
  "inCls Word (CHR ''r'') = True"
  "inCls Word (CHR ''s'') = True"
  "inCls Word (CHR ''t'') = True"
  "inCls Word (CHR ''u'') = True"
  "inCls Word (CHR ''v'') = True"
  "inCls Word (CHR ''w'') = True"
  "inCls Word (CHR ''x'') = True"
  "inCls Word (CHR ''y'') = True"
  "inCls Word (CHR ''z'') = True"
  "inCls Word (CHR ''{'') = False"
  "inCls Word (CHR ''|'') = False"
  "inCls Word (CHR ''}'') = False"
  "inCls Word (CHR ''~'') = False"
  by (simp_all add: code_def)

lemma inCls_Digit_ascii:
  "inCls Digit (CHR 0x09) = False"
  "inCls Digit (CHR 0x0A) = False"
  "inCls Digit (CHR 0x0D) = False"
  "inCls Digit (CHR '' '') = False"
  "inCls Digit (CHR ''!'') = False"
  "inCls Digit (CHR 0x22) = False"
  "inCls Digit (CHR ''#'') = False"
  "inCls Digit (CHR ''$'') = False"
  "inCls Digit (CHR ''%'') = False"
  "inCls Digit (CHR ''&'') = False"
  "inCls Digit (CHR 0x27) = False"
  "inCls Digit (CHR ''('') = False"
  "inCls Digit (CHR '')'') = False"
  "inCls Digit (CHR ''*'') = False"
  "inCls Digit (CHR ''+'') = False"
  "inCls Digit (CHR '','') = False"
  "inCls Digit (CHR ''-'') = False"
  "inCls Digit (CHR ''.'') = False"
  "inCls Digit (CHR ''/'') = False"
  "inCls Digit (CHR ''0'') = True"
  "inCls Digit (CHR ''1'') = True"
  "inCls Digit (CHR ''2'') = True"
  "inCls Digit (CHR ''3'') = True"
  "inCls Digit (CHR ''4'') = True"
  "inCls Digit (CHR ''5'') = True"
  "inCls Digit (CHR ''6'') = True"
  "inCls Digit (CHR ''7'') = True"
  "inCls Digit (CHR ''8'') = True"
  "inCls Digit (CHR ''9'') = True"
  "inCls Digit (CHR '':'') = False"
  "inCls Digit (CHR '';'') = False"
  "inCls Digit (CHR ''<'') = False"
  "inCls Digit (CHR ''='') = False"
  "inCls Digit (CHR ''>'') = False"
  "inCls Digit (CHR ''?'') = False"
  "inCls Digit (CHR ''@'') = False"
  "inCls Digit (CHR ''A'') = False"
  "inCls Digit (CHR ''B'') = False"
  "inCls Digit (CHR ''C'') = False"
  "inCls Digit (CHR ''D'') = False"
  "inCls Digit (CHR ''E'') = False"
  "inCls Digit (CHR ''F'') = False"
  "inCls Digit (CHR ''G'') = False"
  "inCls Digit (CHR ''H'') = False"
  "inCls Digit (CHR ''I'') = False"
  "inCls Digit (CHR ''J'') = False"
  "inCls Digit (CHR ''K'') = False"
  "inCls Digit (CHR ''L'') = False"
  "inCls Digit (CHR ''M'') = False"
  "inCls Digit (CHR ''N'') = False"
  "inCls Digit (CHR ''O'') = False"
  "inCls Digit (CHR ''P'') = False"
  "inCls Digit (CHR ''Q'') = False"
  "inCls Digit (CHR ''R'') = False"
  "inCls Digit (CHR ''S'') = False"
  "inCls Digit (CHR ''T'') = False"
  "inCls Digit (CHR ''U'') = False"
  "inCls Digit (CHR ''V'') = False"
  "inCls Digit (CHR ''W'') = False"
  "inCls Digit (CHR ''X'') = False"
  "inCls Digit (CHR ''Y'') = False"
  "inCls Digit (CHR ''Z'') = False"
  "inCls Digit (CHR ''['') = False"
  "inCls Digit (CHR 0x5C) = False"
  "inCls Digit (CHR '']'') = False"
  "inCls Digit (CHR ''^'') = False"
  "inCls Digit (CHR ''_'') = False"
  "inCls Digit (CHR 0x60) = False"
  "inCls Digit (CHR ''a'') = False"
  "inCls Digit (CHR ''b'') = False"
  "inCls Digit (CHR ''c'') = False"
  "inCls Digit (CHR ''d'') = False"
  "inCls Digit (CHR ''e'') = False"
  "inCls Digit (CHR ''f'') = False"
  "inCls Digit (CHR ''g'') = False"
  "inCls Digit (CHR ''h'') = False"
  "inCls Digit (CHR ''i'') = False"
  "inCls Digit (CHR ''j'') = False"
  "inCls Digit (CHR ''k'') = False"
  "inCls Digit (CHR ''l'') = False"
  "inCls Digit (CHR ''m'') = False"
  "inCls Digit (CHR ''n'') = False"
  "inCls Digit (CHR ''o'') = False"
  "inCls Digit (CHR ''p'') = False"
  "inCls Digit (CHR ''q'') = False"
  "inCls Digit (CHR ''r'') = False"
  "inCls Digit (CHR ''s'') = False"
  "inCls Digit (CHR ''t'') = False"
  "inCls Digit (CHR ''u'') = False"
  "inCls Digit (CHR ''v'') = False"
  "inCls Digit (CHR ''w'') = False"
  "inCls Digit (CHR ''x'') = False"
  "inCls Digit (CHR ''y'') = False"
  "inCls Digit (CHR ''z'') = False"
  "inCls Digit (CHR ''{'') = False"
  "inCls Digit (CHR ''|'') = False"
  "inCls Digit (CHR ''}'') = False"
  "inCls Digit (CHR ''~'') = False"
  by (simp_all add: code_def)

lemma inCls_Dot_ascii:
  "inCls Dot (CHR 0x09) = True"
  "inCls Dot (CHR 0x0A) = False"
  "inCls Dot (CHR 0x0D) = False"
  "inCls Dot (CHR '' '') = True"
  "inCls Dot (CHR ''!'') = True"
  "inCls Dot (CHR 0x22) = True"
  "inCls Dot (CHR ''#'') = True"
  "inCls Dot (CHR ''$'') = True"
  "inCls Dot (CHR ''%'') = True"
  "inCls Dot (CHR ''&'') = True"
  "inCls Dot (CHR 0x27) = True"
  "inCls Dot (CHR ''('') = True"
  "inCls Dot (CHR '')'') = True"
  "inCls Dot (CHR ''*'') = True"
  "inCls Dot (CHR ''+'') = True"
  "inCls Dot (CHR '','') = True"
  "inCls Dot (CHR ''-'') = True"
  "inCls Dot (CHR ''.'') = True"
  "inCls Dot (CHR ''/'') = True"
  "inCls Dot (CHR ''0'') = True"
  "inCls Dot (CHR ''1'') = True"
  "inCls Dot (CHR ''2'') = True"
  "inCls Dot (CHR ''3'') = True"
  "inCls Dot (CHR ''4'') = True"
  "inCls Dot (CHR ''5'') = True"
  "inCls Dot (CHR ''6'') = True"
  "inCls Dot (CHR ''7'') = True"
  "inCls Dot (CHR ''8'') = True"
  "inCls Dot (CHR ''9'') = True"
  "inCls Dot (CHR '':'') = True"
  "inCls Dot (CHR '';'') = True"
  "inCls Dot (CHR ''<'') = True"
  "inCls Dot (CHR ''='') = True"
  "inCls Dot (CHR ''>'') = True"
  "inCls Dot (CHR ''?'') = True"
  "inCls Dot (CHR ''@'') = True"
  "inCls Dot (CHR ''A'') = True"
  "inCls Dot (CHR ''B'') = True"
  "inCls Dot (CHR ''C'') = True"
  "inCls Dot (CHR ''D'') = True"
  "inCls Dot (CHR ''E'') = True"
  "inCls Dot (CHR ''F'') = True"
  "inCls Dot (CHR ''G'') = True"
  "inCls Dot (CHR ''H'') = True"
  "inCls Dot (CHR ''I'') = True"
  "inCls Dot (CHR ''J'') = True"
  "inCls Dot (CHR ''K'') = True"
  "inCls Dot (CHR ''L'') = True"
  "inCls Dot (CHR ''M'') = True"
  "inCls Dot (CHR ''N'') = True"
  "inCls Dot (CHR ''O'') = True"
  "inCls Dot (CHR ''P'') = True"
  "inCls Dot (CHR ''Q'') = True"
  "inCls Dot (CHR ''R'') = True"
  "inCls Dot (CHR ''S'') = True"
  "inCls Dot (CHR ''T'') = True"
  "inCls Dot (CHR ''U'') = True"
  "inCls Dot (CHR ''V'') = True"
  "inCls Dot (CHR ''W'') = True"
  "inCls Dot (CHR ''X'') = True"
  "inCls Dot (CHR ''Y'') = True"
  "inCls Dot (CHR ''Z'') = True"
  "inCls Dot (CHR ''['') = True"
  "inCls Dot (CHR 0x5C) = True"
  "inCls Dot (CHR '']'') = True"
  "inCls Dot (CHR ''^'') = True"
  "inCls Dot (CHR ''_'') = True"
  "inCls Dot (CHR 0x60) = True"
  "inCls Dot (CHR ''a'') = True"
  "inCls Dot (CHR ''b'') = True"
  "inCls Dot (CHR ''c'') = True"
  "inCls Dot (CHR ''d'') = True"
  "inCls Dot (CHR ''e'') = True"
  "inCls Dot (CHR ''f'') = True"
  "inCls Dot (CHR ''g'') = True"
  "inCls Dot (CHR ''h'') = True"
  "inCls Dot (CHR ''i'') = True"
  "inCls Dot (CHR ''j'') = True"
  "inCls Dot (CHR ''k'') = True"
  "inCls Dot (CHR ''l'') = True"
  "inCls Dot (CHR ''m'') = True"
  "inCls Dot (CHR ''n'') = True"
  "inCls Dot (CHR ''o'') = True"
  "inCls Dot (CHR ''p'') = True"
  "inCls Dot (CHR ''q'') = True"
  "inCls Dot (CHR ''r'') = True"
  "inCls Dot (CHR ''s'') = True"
  "inCls Dot (CHR ''t'') = True"
  "inCls Dot (CHR ''u'') = True"
  "inCls Dot (CHR ''v'') = True"
  "inCls Dot (CHR ''w'') = True"
  "inCls Dot (CHR ''x'') = True"
  "inCls Dot (CHR ''y'') = True"
  "inCls Dot (CHR ''z'') = True"
  "inCls Dot (CHR ''{'') = True"
  "inCls Dot (CHR ''|'') = True"
  "inCls Dot (CHR ''}'') = True"
  "inCls Dot (CHR ''~'') = True"
  by (simp_all add: code_def)

lemma digit_value:
  "code (CHR ''0'') - 48 = 0"
  "code (CHR ''1'') - 48 = 1"
  "code (CHR ''2'') - 48 = 2"
  "code (CHR ''3'') - 48 = 3"
  "code (CHR ''4'') - 48 = 4"
  "code (CHR ''5'') - 48 = 5"
  "code (CHR ''6'') - 48 = 6"
  "code (CHR ''7'') - 48 = 7"
  "code (CHR ''8'') - 48 = 8"
  "code (CHR ''9'') - 48 = 9"
  by (simp_all add: code_def)

lemmas char_tables =
  canonicalize_ascii toLowerChar_ascii isWhiteSpace_ascii
  inCls_Word_ascii inCls_Digit_ascii inCls_Dot_ascii digit_value

lemmas re_eval =
  seqs_def foldr.simps o_apply id_apply append.simps search.simps matchRe.simps litMatch.simps
  char_tables char.inject simp_thms if_True if_False option.case option.distinct option.inject
  list.distinct list.inject inCls.simps(1,5) list.set list.map insert_iff empty_iff
  length_Cons list.size(3) drop_Suc_Cons drop_0 quote_def currentDate_def

lemmas cap_eval =
  groupVal_def groupText_def capture_def fun_upd_same prod.case
  diff_Suc_Suc diff_zero take_Suc_Cons take_0

lemmas checks_def =
  statusCheck_def statusRe_def priorityCheck_def priorityRe_def regionCheck_def regionRe_def
  dueDateCheck_def dueDateRe_def scheduledDateCheck_def scheduledDateRe_def
  quantityCheck_def quantityRe_def quarterCheck_def quarterRe_def
  delayedOrCheck_def delayedOrRe_def

lemmas str_eval =
  toLowerCase_def trim_def list.map char_tables dropWhile.simps rev.simps append.simps
  startsWith.simps includes_str.simps char.inject simp_thms if_True if_False
  list.distinct list.inject

section \<open>The query orchestrator\<close>

lemma runStages_returns: "\<exists>rows. fst (runStages h m collection sql) = Inr rows"
  by (simp add: runStages_def Let_def split: prod.splits)

text \<open>
  Claim C6. For every input string, \<open>executeSqlQuery\<close> fails with
  \<open>UnsupportedStatement\<close> exactly when the input, lower-cased and trimmed, does not
  begin with \<open>select\<close>.
\<close>

theorem executeSqlQuery_unsupported_iff:
  "fst (executeSqlQuery h m sql) = Inl UnsupportedStatement
     \<longleftrightarrow> \<not> startsWith (trim (toLowerCase sql)) ''select''"
proof -
  have r: "\<And>c. fst (runStages h m c sql) \<noteq> Inl UnsupportedStatement"
    using runStages_returns [of h m _ sql] by (metis sum.distinct(1))
  show ?thesis
    by (simp add: executeSqlQuery_def Let_def r)
qed

text \<open>The input \<open>not a select\<close> fails with \<open>UnsupportedStatement\<close>.\<close>

theorem executeSqlQuery_unsupported_witness:
  "fst (executeSqlQuery plainHost fixtureMachine ''not a select'') = Inl UnsupportedStatement"
proof -
  have "\<not> startsWith (trim (toLowerCase ''not a select'')) ''select''"
    by (simp only: str_eval cong: if_weak_cong)
  then show ?thesis
    using executeSqlQuery_unsupported_iff [of plainHost fixtureMachine "''not a select''"]
    by simp
qed



section \<open>The stages and the store\<close>

text \<open>What \<open>runStages\<close> returns is the three stages applied to the rows of the collection.\<close>

lemma runStages_value:
  "fst (runStages h m collection sql)
     = Inr (applyLimit (applyOrderBy h (applyWhereConditions h (deref m collection) sql) sql) sql)"
  by (auto simp: runStages_def applyWhereConditions_ref_def applyOrderBy_ref_def
        applyLimit_ref_def applyWhereConditions_def applyOrderBy_def applyLimit_def
        newArray_def writeArray_def deref_def Let_def
      split: option.splits prod.splits if_splits)

lemma runStages_frame:
  "storage (snd (runStages h m collection sql)) = storage m
   \<and> (\<forall>a. a < nextRef m \<longrightarrow> arrays (snd (runStages h m collection sql)) a = arrays m a)"
  by (auto simp: runStages_def applyWhereConditions_ref_def applyOrderBy_ref_def
        applyLimit_ref_def newArray_def writeArray_def Let_def
      split: option.splits prod.splits if_splits)

lemma executeSqlQuery_old_arrays:
  "storage (snd (executeSqlQuery h m sql)) = storage m
   \<and> (\<forall>a. a < nextRef m \<longrightarrow> arrays (snd (executeSqlQuery h m sql)) a = arrays m a)"
  using runStages_frame [of h m _ sql]
  by (simp add: executeSqlQuery_def Let_def)

text \<open>
  Claim C8. \<open>executeSqlQuery\<close> never changes the stored collections: after a call,
  failed or not, the object \<open>storage\<close> is the same and each of its four arrays holds
  the same rows in the same order. The arrays are those of a machine whose collections
  exist, that is, lie below the next free reference; the stages write to the copy and
  to arrays made after it.
\<close>

theorem executeSqlQuery_frame:
  assumes "salesOrders (storage m) < nextRef m" and "workOrders (storage m) < nextRef m"
    and "invoices (storage m) < nextRef m" and "inventoryItems (storage m) < nextRef m"
  shows "storage (snd (executeSqlQuery h m sql)) = storage m
       \<and> deref (snd (executeSqlQuery h m sql)) (salesOrders (storage m))
           = deref m (salesOrders (storage m))
       \<and> deref (snd (executeSqlQuery h m sql)) (workOrders (storage m))
           = deref m (workOrders (storage m))
       \<and> deref (snd (executeSqlQuery h m sql)) (invoices (storage m))
           = deref m (invoices (storage m))
       \<and> deref (snd (executeSqlQuery h m sql)) (inventoryItems (storage m))
           = deref m (inventoryItems (storage m))"
  using assms executeSqlQuery_old_arrays [of h m sql]
  by (simp add: deref_def)

section \<open>The scenarios\<close>

lemma arraySort_single: "arraySort cmp [x] = [x]"
  by (simp add: arraySort_def)

lemma applyOrderBy_single: "applyOrderBy h [x] sql = [x]"
  by (simp add: applyOrderBy_def arraySort_single Let_def split: option.splits)

lemma whereClauseOf_sqlDelayed: "whereClauseOf sqlDelayed = Some clauseDelayed"
  by (simp only: whereClauseOf_def whereRe_def sqlDelayed_def clauseDelayed_def re_eval cap_eval
        trim_def dropWhile.simps rev.simps cong: if_weak_cong option.case_cong_weak)

text \<open>On the clause of the delayed-work-orders query the status equality finds \<open>delayed\<close>.\<close>

lemma statusCheck_clauseDelayed:
  "statusCheck clauseDelayed r = (getField r ''status'' = Str ''delayed'')"
  by (simp only: checks_def clauseDelayed_def re_eval cap_eval
        cong: if_weak_cong option.case_cong_weak)

lemma absent_clauseDelayed:
  "priorityCheck clauseDelayed r" "regionCheck clauseDelayed r" "dueDateCheck h clauseDelayed r"
  "quantityCheck clauseDelayed r" "quarterCheck h clauseDelayed r"
  by (simp_all only: checks_def clauseDelayed_def re_eval cap_eval
        cong: if_weak_cong option.case_cong_weak)

lemma scheduledDateCheck_clauseDelayed:
  "scheduledDateCheck h clauseDelayed r =
     (if truthy (getField r ''scheduledDate'')
      then \<not> numGreaterEq (getTime h (getField r ''scheduledDate'')) (Some (now h))
      else True)"
  by (simp only: checks_def clauseDelayed_def re_eval
        cong: if_weak_cong option.case_cong_weak)

text \<open>The link written for the disjunction would keep the overdue row.\<close>

lemma delayedOrCheck_clauseDelayed:
  "delayedOrCheck h clauseDelayed r =
     (getField r ''status'' = Str ''delayed''
      \<or> (getField r ''status'' = Str ''in-progress'' \<and> truthy (getField r ''scheduledDate'')
          \<and> numLess (getTime h (getField r ''scheduledDate'')) (Some (now h))))"
  by (simp only: checks_def clauseDelayed_def re_eval Let_def de_Morgan_conj not_not
        cong: if_weak_cong option.case_cong_weak)

lemma applyLimit_sqlDelayed: "applyLimit [x] sqlDelayed = [x]"
  by (simp only: applyLimit_def limitRe_def sqlDelayed_def re_eval cap_eval parseInt_def
        foldl.simps mult_0_right add_0 cong: if_weak_cong option.case_cong_weak) simp

lemma table_sqlDelayed:
  "startsWith (trim (toLowerCase sqlDelayed)) ''select''"
  "\<not> includes_str (trim (toLowerCase sqlDelayed)) ''sales_orders''"
  "includes_str (trim (toLowerCase sqlDelayed)) ''work_orders''"
  by (simp_all only: sqlDelayed_def str_eval cong: if_weak_cong)

lemma keepRow_clauseDelayed:
  "keepRow plainHost clauseDelayed woDelayed"
  "\<not> keepRow plainHost clauseDelayed woInProgress"
  "\<not> keepRow plainHost clauseDelayed woCompleted"
  by (simp_all add: keepRow_def laterChecks_def statusCheck_clauseDelayed absent_clauseDelayed
        scheduledDateCheck_clauseDelayed delayedOrCheck_clauseDelayed getField_def
        woDelayed_def woInProgress_def woCompleted_def nullable_def plainHost_def)

lemma workOrders_fixture:
  "deref fixtureMachine (workOrders (storage fixtureMachine))
     = [woDelayed, woInProgress, woCompleted]"
  by (simp add: deref_def fixtureMachine_def)

text \<open>
  Claim C1. On the three work orders (one \<open>delayed\<close>, one \<open>in-progress\<close> and due in
  the past, one \<open>completed\<close>) the delayed-work-orders query is claimed to return the
  first two. The code returns the first only: the status equality, earlier in the
  chain, finds \<open>status = 'delayed'\<close> in the same clause and drops every row of another
  status before the disjunction is looked at.
\<close>

theorem delayed_or_query_result:
  "fst (executeSqlQuery plainHost fixtureMachine sqlDelayed) = Inr [woDelayed]
   \<and> fst (executeSqlQuery plainHost fixtureMachine sqlDelayed) \<noteq> Inr [woDelayed, woInProgress]
   \<and> delayedOrCheck plainHost clauseDelayed woInProgress"
proof -
  have "executeSqlQuery plainHost fixtureMachine sqlDelayed
          = runStages plainHost fixtureMachine (workOrders (storage fixtureMachine)) sqlDelayed"
    by (simp add: executeSqlQuery_def Let_def table_sqlDelayed)
  then have "fst (executeSqlQuery plainHost fixtureMachine sqlDelayed) = Inr [woDelayed]"
    by (simp add: runStages_value workOrders_fixture applyWhereConditions_def
          whereClauseOf_sqlDelayed keepRow_clauseDelayed applyOrderBy_single applyLimit_sqlDelayed)
  moreover have "delayedOrCheck plainHost clauseDelayed woInProgress"
    by (simp add: delayedOrCheck_clauseDelayed getField_def woInProgress_def nullable_def
          plainHost_def)
  ultimately show ?thesis by simp
qed

text \<open>
  Where the status pattern is found, the rows kept are those whose status is the
  captured value and that pass the later links.
\<close>

lemma status_equality_filter:
  assumes "whereClauseOf sql = Some whereClause"
    and "search statusRe whereClause = Some statusMatch"
  shows "applyWhereConditions h data sql
           = filter (\<lambda>r. getField r ''status'' = groupVal statusMatch 1
                         \<and> laterChecks h whereClause r) data"
proof -
  have "keepRow h whereClause
          = (\<lambda>r. getField r ''status'' = groupVal statusMatch 1 \<and> laterChecks h whereClause r)"
    using assms(2) by (simp add: keepRow_def statusCheck_def fun_eq_iff)
  then show ?thesis
    using assms(1) by (simp add: applyWhereConditions_def)
qed

lemma whereClauseOf_sqlInProgress: "whereClauseOf sqlInProgress = Some clauseInProgress"
  by (simp only: whereClauseOf_def whereRe_def sqlInProgress_def clauseInProgress_def re_eval
        cap_eval trim_def dropWhile.simps rev.simps cong: if_weak_cong option.case_cong_weak)

text \<open>No pattern is found in \<open>status = 'in-progress'\<close>: \<open>\w+\<close> stops at the hyphen.\<close>

lemma checks_clauseInProgress:
  "statusCheck clauseInProgress r" "priorityCheck clauseInProgress r"
  "regionCheck clauseInProgress r" "dueDateCheck h clauseInProgress r"
  "scheduledDateCheck h clauseInProgress r" "quantityCheck clauseInProgress r"
  "quarterCheck h clauseInProgress r" "delayedOrCheck h clauseInProgress r"
  by (simp_all only: checks_def clauseInProgress_def re_eval cap_eval
        cong: if_weak_cong option.case_cong_weak)

lemma applyOrderBy_sqlInProgress: "applyOrderBy h data sqlInProgress = data"
  by (simp only: applyOrderBy_def orderRe_def sqlInProgress_def re_eval
        cong: if_weak_cong option.case_cong_weak)

lemma applyLimit_sqlInProgress: "applyLimit data sqlInProgress = data"
  by (simp only: applyLimit_def limitRe_def topRe_def sqlInProgress_def re_eval
        cong: if_weak_cong option.case_cong_weak)

lemma table_sqlInProgress:
  "startsWith (trim (toLowerCase sqlInProgress)) ''select''"
  "\<not> includes_str (trim (toLowerCase sqlInProgress)) ''sales_orders''"
  "includes_str (trim (toLowerCase sqlInProgress)) ''work_orders''"
  by (simp_all only: sqlInProgress_def str_eval cong: if_weak_cong)

text \<open>
  Claim C2. A clause \<open>status = '<value>'\<close> is claimed to keep exactly the rows whose
  status is the value. For the value \<open>in-progress\<close>, a status of the work orders, the
  code keeps every row: the \<open>delayed\<close> and the \<open>completed\<close> work order are returned
  too.
\<close>

theorem in_progress_query_result:
  "fst (executeSqlQuery plainHost fixtureMachine sqlInProgress)
     = Inr [woDelayed, woInProgress, woCompleted]"
proof -
  have "executeSqlQuery plainHost fixtureMachine sqlInProgress
          = runStages plainHost fixtureMachine (workOrders (storage fixtureMachine)) sqlInProgress"
    by (simp add: executeSqlQuery_def Let_def table_sqlInProgress)
  then show ?thesis
    by (simp add: runStages_value workOrders_fixture applyWhereConditions_def
          whereClauseOf_sqlInProgress keepRow_def laterChecks_def checks_clauseInProgress
          applyOrderBy_sqlInProgress applyLimit_sqlInProgress)
qed

lemma whereClauseOf_sqlLowStock: "whereClauseOf sqlLowStock = Some clauseLowStock"
  by (simp only: whereClauseOf_def whereRe_def sqlLowStock_def clauseLowStock_def re_eval
        cap_eval trim_def dropWhile.simps rev.simps cong: if_weak_cong option.case_cong_weak)

lemma absent_clauseLowStock:
  "statusCheck clauseLowStock r" "priorityCheck clauseLowStock r" "regionCheck clauseLowStock r"
  "dueDateCheck h clauseLowStock r" "scheduledDateCheck h clauseLowStock r"
  "quarterCheck h clauseLowStock r" "delayedOrCheck h clauseLowStock r"
  by (simp_all only: checks_def clauseLowStock_def re_eval cap_eval
        cong: if_weak_cong option.case_cong_weak)

lemma quantityCheck_clauseLowStock:
  "quantityCheck clauseLowStock r =
     (if truthy (getField r ''quantityOnHand'') \<and> truthy (getField r ''reorderLevel'')
      then \<not> jsGreater (getField r ''quantityOnHand'') (getField r ''reorderLevel'')
      else True)"
  by (simp only: checks_def clauseLowStock_def re_eval cap_eval
        cong: if_weak_cong option.case_cong_weak)

text \<open>The scenario of the claim: of the items (10, 50) and (80, 20) the first is returned.\<close>

lemma low_stock_fixture:
  "applyWhereConditions h [itemLow, itemHigh] sqlLowStock = [itemLow]"
  by (simp add: applyWhereConditions_def whereClauseOf_sqlLowStock keepRow_def laterChecks_def
        absent_clauseLowStock quantityCheck_clauseLowStock getField_def
        itemLow_def itemHigh_def inventoryItem_def nullable_def)

text \<open>
  Claim C3. \<open>quantity_on_hand <= reorder_level\<close> is claimed to keep only the rows with
  \<open>quantityOnHand \<le> reorderLevel\<close>, the check being skipped exactly when a field is
  absent. The item with quantity 10 and reorder level 0 has both fields and
  \<open>10 > 0\<close>, and the code keeps it: the guard \<open>row.quantityOnHand && row.reorderLevel\<close>
  takes the number 0 for an absent field.
\<close>

theorem low_stock_zero_reorder_level:
  "applyWhereConditions h [itemLow, itemHigh, itemZero] sqlLowStock = [itemLow, itemZero]"
  by (simp add: applyWhereConditions_def whereClauseOf_sqlLowStock keepRow_def laterChecks_def
        absent_clauseLowStock quantityCheck_clauseLowStock getField_def
        itemLow_def itemHigh_def itemZero_def inventoryItem_def nullable_def)

section \<open>A query that sorts\<close>

lemma orderMatch_sqlByDateDesc:
  "map_option (\<lambda>m. (groupText m 1, groupVal m 2)) (search orderRe sqlByDateDesc)
     = Some (''scheduled_date'', Str ''DESC'')"
  apply (simp only: orderRe_def sqlByDateDesc_def re_eval option.map
        cong: if_weak_cong option.case_cong_weak)
  apply (simp add: groupText_def groupVal_def capture_def)
  done

lemma mapColumnName_scheduled_date: "mapColumnName ''scheduled_date'' = ''scheduledDate''"
  by (simp add: mapColumnName_def mapping_def toLowerCase_def toLowerChar_ascii)

lemma applyOrderBy_sqlByDateDesc:
  "applyOrderBy h data sqlByDateDesc
     = arraySort (compareRows h ''scheduledDate'' ''DESC'') data"
proof -
  from orderMatch_sqlByDateDesc obtain m where m: "search orderRe sqlByDateDesc = Some m"
    and g: "groupText m 1 = ''scheduled_date''" "groupVal m 2 = Str ''DESC''"
    by auto
  from g(2) have "groupText m 2 = ''DESC''"
    by (auto simp: groupVal_def groupText_def split: option.splits)
  then have "orderDirection m = ''DESC''"
    by (simp add: orderDirection_def g toUpperCase_def canonicalize_ascii)
  then show ?thesis
    using g(1) by (simp add: applyOrderBy_def m mapColumnName_scheduled_date Let_def)
qed

lemma sorted_sqlByDateDesc:
  "applyOrderBy plainHost [woDelayed, woInProgress, woCompleted] sqlByDateDesc
     = [woCompleted, woInProgress, woDelayed]"
  by (simp add: applyOrderBy_sqlByDateDesc arraySort_def compareRows_def getField_def
        woDelayed_def woInProgress_def woCompleted_def nullable_def isNullish_def
        negative_def Let_def)

lemma whereClauseOf_sqlByDateDesc: "whereClauseOf sqlByDateDesc = None"
  by (simp only: whereClauseOf_def whereRe_def sqlByDateDesc_def re_eval
        cong: if_weak_cong option.case_cong_weak)

lemma applyLimit_sqlByDateDesc: "applyLimit data sqlByDateDesc = data"
  by (simp only: applyLimit_def limitRe_def topRe_def sqlByDateDesc_def re_eval
        cong: if_weak_cong option.case_cong_weak)

lemma table_sqlByDateDesc:
  "startsWith (trim (toLowerCase sqlByDateDesc)) ''select''"
  "\<not> includes_str (trim (toLowerCase sqlByDateDesc)) ''sales_orders''"
  "includes_str (trim (toLowerCase sqlByDateDesc)) ''work_orders''"
  by (simp_all only: sqlByDateDesc_def str_eval cong: if_weak_cong)

text \<open>
  The query sorts its copy of the work orders, newest first, and returns it; the
  stored array keeps its order.
\<close>

theorem executeSqlQuery_frame_witness:
  "salesOrders (storage fixtureMachine) < nextRef fixtureMachine
   \<and> workOrders (storage fixtureMachine) < nextRef fixtureMachine
   \<and> invoices (storage fixtureMachine) < nextRef fixtureMachine
   \<and> inventoryItems (storage fixtureMachine) < nextRef fixtureMachine
   \<and> fst (executeSqlQuery plainHost fixtureMachine sqlByDateDesc)
       = Inr [woCompleted, woInProgress, woDelayed]
   \<and> storage (snd (executeSqlQuery plainHost fixtureMachine sqlByDateDesc))
       = storage fixtureMachine
   \<and> deref (snd (executeSqlQuery plainHost fixtureMachine sqlByDateDesc))
         (workOrders (storage fixtureMachine))
       = [woDelayed, woInProgress, woCompleted]"
proof -
  have a: "salesOrders (storage fixtureMachine) < nextRef fixtureMachine"
          "workOrders (storage fixtureMachine) < nextRef fixtureMachine"
          "invoices (storage fixtureMachine) < nextRef fixtureMachine"
          "inventoryItems (storage fixtureMachine) < nextRef fixtureMachine"
    by (simp_all add: fixtureMachine_def)
  have "executeSqlQuery plainHost fixtureMachine sqlByDateDesc
          = runStages plainHost fixtureMachine (workOrders (storage fixtureMachine)) sqlByDateDesc"
    by (simp add: executeSqlQuery_def Let_def table_sqlByDateDesc)
  then have r: "fst (executeSqlQuery plainHost fixtureMachine sqlByDateDesc)
                  = Inr [woCompleted, woInProgress, woDelayed]"
    by (simp add: runStages_value workOrders_fixture applyWhereConditions_def
          whereClauseOf_sqlByDateDesc sorted_sqlByDateDesc applyLimit_sqlByDateDesc)
  show ?thesis
    using executeSqlQuery_frame [OF a, of plainHost sqlByDateDesc] a r workOrders_fixture
    by simp
qed

section \<open>The sort stage: rows without a value come last\<close>























section \<open>The query log: status transitions\<close>











section \<open>The limit stage: what the patterns find\<close>

lemma litMatch_shape:
  "litMatch l s \<Longrightarrow> \<exists>k. s = k @ drop (length l) s \<and> length k = length l
                          \<and> map canonicalize k = map canonicalize l"
proof (induction l s rule: litMatch.induct)
  case (1 s)
  then show ?case by simp
next
  case (2 p ps)
  then show ?case by simp
next
  case (3 p ps c cs)
  then obtain k where "cs = k @ drop (length ps) cs" "length k = length ps"
      "map canonicalize k = map canonicalize ps" by auto
  with 3 show ?case by (intro exI [of _ "c # k"]) auto
qed

lemma litMatch_append:
  "length k = length l \<Longrightarrow> map canonicalize k = map canonicalize l \<Longrightarrow> litMatch l (k @ r)"
proof (induction l "k @ r" arbitrary: k rule: litMatch.induct)
  case (1 s)
  then show ?case by simp
next
  case (2 p ps)
  then show ?case by simp
next
  case (3 p ps c cs)
  then show ?case by (cases k) auto
qed

lemma star_shape:
  "matchRe (Star cl # K) s c = Some m \<Longrightarrow>
     \<exists>w s'. s = w @ s' \<and> (\<forall>x\<in>set w. inCls cl x) \<and> matchRe K s' c = Some m"
proof (induction s)
  case Nil
  then show ?case by (intro exI [of _ "[]"]) simp
next
  case (Cons x s)
  show ?case
  proof (cases "inCls cl x \<and> matchRe (Star cl # K) s c \<noteq> None")
    case True
    with Cons.prems have "matchRe (Star cl # K) s c = Some m" by auto
    from Cons.IH [OF this] obtain w s' where "s = w @ s'" "\<forall>x\<in>set w. inCls cl x"
        "matchRe K s' c = Some m" by blast
    with True show ?thesis by (intro exI [of _ "x # w"] exI [of _ s']) simp
  next
    case False
    with Cons.prems have "matchRe K (x # s) c = Some m" by (auto split: if_splits)
    then show ?thesis by (intro exI [of _ "[]"] exI [of _ "x # s"]) simp
  qed
qed

lemma star_complete:
  "(\<forall>x\<in>set w. inCls cl x) \<Longrightarrow> matchRe K t c \<noteq> None \<Longrightarrow> matchRe (Star cl # K) (w @ t) c \<noteq> None"
proof (induction w)
  case Nil
  then show ?case by (cases t) (auto split: option.splits)
next
  case (Cons x w)
  then show ?case by (auto split: option.splits)
qed

lemma search_shape:
  "search r s = Some m \<Longrightarrow> \<exists>p s'. s = p @ s' \<and> matchRe [r] s' Map.empty = Some m"
proof (induction s)
  case Nil
  then show ?case by simp
next
  case (Cons x s)
  show ?case
  proof (cases "matchRe [r] (x # s) Map.empty")
    case None
    with Cons.prems have "search r s = Some m" by simp
    from Cons.IH [OF this] obtain p s' where "s = p @ s'" "matchRe [r] s' Map.empty = Some m"
      by blast
    then show ?thesis by (intro exI [of _ "x # p"] exI [of _ s']) simp
  next
    case (Some a)
    with Cons.prems show ?thesis by (intro exI [of _ "[]"] exI [of _ "x # s"]) simp
  qed
qed

lemma search_complete:
  "matchRe [r] s' Map.empty \<noteq> None \<Longrightarrow> search r (p @ s') \<noteq> None"
proof (induction p)
  case Nil
  then show ?case by (cases s') (auto split: option.splits)
next
  case (Cons x p)
  then show ?case by (auto split: option.splits)
qed

text \<open>A run of digits, then the end of group \<open>n\<close>.\<close>

lemma digits_shape:
  "matchRe [Plus Digit, Close n s0, Eps] s c = Some m \<Longrightarrow>
     \<exists>d ds rest. s = d # ds @ rest \<and> (\<forall>x\<in>set (d # ds). inCls Digit x)
        \<and> m = c(n \<mapsto> (s0, rest))"
proof -
  assume a: "matchRe [Plus Digit, Close n s0, Eps] s c = Some m"
  then obtain d t where s: "s = d # t" and d: "inCls Digit d"
      and b: "matchRe [Star Digit, Close n s0, Eps] t c = Some m"
    by (cases s) (auto split: if_splits)
  from star_shape [OF b] obtain ds rest where "t = ds @ rest" "\<forall>x\<in>set ds. inCls Digit x"
      "matchRe [Close n s0, Eps] rest c = Some m" by blast
  with s d show ?thesis by auto
qed

lemma digits_complete: "inCls Digit d \<Longrightarrow> matchRe [Plus Digit, Close n s0, Eps] (d # t) c \<noteq> None"
  using star_complete [of "[]" Digit "[Close n s0, Eps]" t c]
  by (cases t) (auto split: option.splits)

text \<open>A keyword, then white space, then the rest of the pattern.\<close>

lemma keyword_shape:
  assumes "matchRe [Seq (Lit l) (Seq (Plus Space) R)] s c = Some m"
  shows "\<exists>k w s'. s = k @ w @ s' \<and> map canonicalize k = map canonicalize l \<and> w \<noteq> []
            \<and> (\<forall>x\<in>set w. isWhiteSpace x) \<and> matchRe [R] s' c = Some m"
proof -
  from assms have l: "litMatch l s"
    and a: "matchRe [Plus Space, R] (drop (length l) s) c = Some m"
    by (auto split: if_splits)
  from litMatch_shape [OF l] obtain k where k: "s = k @ drop (length l) s"
      "map canonicalize k = map canonicalize l" by blast
  from a obtain x t where d: "drop (length l) s = x # t" and x: "isWhiteSpace x"
      and b: "matchRe [Star Space, R] t c = Some m"
    by (cases "drop (length l) s") (auto split: if_splits)
  from star_shape [OF b] obtain w s' where w: "t = w @ s'" "\<forall>x\<in>set w. inCls Space x"
      "matchRe [R] s' c = Some m" by blast
  have "s = k @ (x # w) @ s'" using k(1) d w(1) by simp
  moreover have "\<forall>y\<in>set (x # w). isWhiteSpace y" using x w(2) by simp
  ultimately show ?thesis using k(2) w(3) by blast
qed

lemma keyword_complete:
  assumes "map canonicalize k = map canonicalize l" and "w \<noteq> []"
    and "\<forall>x\<in>set w. isWhiteSpace x" and "matchRe [R] s' c \<noteq> None"
  shows "matchRe [Seq (Lit l) (Seq (Plus Space) R)] (k @ w @ s') c \<noteq> None"
proof -
  from assms(1) have len: "length k = length l" by (metis length_map)
  then have l: "litMatch l (k @ w @ s')" using assms(1) by (rule litMatch_append)
  from assms(2) obtain x w' where w: "w = x # w'" by (cases w) auto
  have "matchRe [Star Space, R] (w' @ s') c \<noteq> None"
    using assms(3,4) w by (intro star_complete) auto
  then show ?thesis using l len w assms(3) by simp
qed

lemma canon_LIMIT: "map canonicalize ''LIMIT'' = ''LIMIT''"
  by (simp add: canonicalize_ascii)

lemma limitRe_unfold:
  "matchRe [limitRe] s c
     = matchRe [Seq (Lit ''LIMIT'') (Seq (Plus Space) (Seq (Cap 1 (Plus Digit)) Eps))] s c"
  by (simp only: limitRe_def seqs_def foldr.simps o_apply id_apply)

lemma cap_unfold: "matchRe [Seq (Cap n a) Eps] s c = matchRe [a, Close n s, Eps] s c"
  by simp

lemma limitRe_shape:
  assumes "matchRe [limitRe] s Map.empty = Some m"
  shows "\<exists>k w rest. s = k @ w @ groupText m 1 @ rest \<and> map canonicalize k = ''LIMIT''
           \<and> w \<noteq> [] \<and> (\<forall>x\<in>set w. isWhiteSpace x)
           \<and> groupText m 1 \<noteq> [] \<and> (\<forall>x\<in>set (groupText m 1). inCls Digit x)"
proof -
  from assms have "matchRe [Seq (Lit ''LIMIT'') (Seq (Plus Space) (Seq (Cap 1 (Plus Digit)) Eps))]
                     s Map.empty = Some m"
    by (simp only: limitRe_unfold)
  from keyword_shape [OF this] obtain k w s' where s: "s = k @ w @ s'"
      and k: "map canonicalize k = map canonicalize ''LIMIT''"
      and w: "w \<noteq> []" "\<forall>x\<in>set w. isWhiteSpace x"
      and a: "matchRe [Seq (Cap 1 (Plus Digit)) Eps] s' Map.empty = Some m" by blast
  note k' = k [unfolded canon_LIMIT]
  from a have "matchRe [Plus Digit, Close 1 s', Eps] s' Map.empty = Some m"
    by (simp only: cap_unfold)
  from digits_shape [OF this] obtain d ds rest where d: "s' = d # ds @ rest"
      and dd: "\<forall>x\<in>set (d # ds). inCls Digit x" and m: "m = Map.empty(1 \<mapsto> (s', rest))" by blast
  have g: "groupText m 1 = d # ds"
    unfolding m d by (simp add: groupText_def capture_def)
  have c1: "s = k @ w @ groupText m 1 @ rest" unfolding g s d by simp
  have c2: "groupText m 1 \<noteq> []" unfolding g by simp
  have c3: "\<forall>x\<in>set (groupText m 1). inCls Digit x" unfolding g by (rule dd)
  show ?thesis
  proof (intro exI conjI)
    show "s = k @ w @ groupText m 1 @ rest" by (rule c1)
    show "map canonicalize k = ''LIMIT''" by (rule k')
    show "w \<noteq> []" by (rule w(1))
    show "\<forall>x\<in>set w. isWhiteSpace x" by (rule w(2))
    show "groupText m 1 \<noteq> []" by (rule c2)
    show "\<forall>x\<in>set (groupText m 1). inCls Digit x" by (rule c3)
  qed
qed

lemma limitRe_complete:
  assumes "map canonicalize k = ''LIMIT''" and "w \<noteq> []" and "\<forall>x\<in>set w. isWhiteSpace x"
    and "inCls Digit d"
  shows "matchRe [limitRe] (k @ w @ d # rest) Map.empty \<noteq> None"
proof -
  have e: "map canonicalize k = map canonicalize ''LIMIT''"
    unfolding canon_LIMIT by (rule assms(1))
  have "matchRe [Plus Digit, Close 1 (d # rest), Eps] (d # rest) Map.empty \<noteq> None"
    by (rule digits_complete [OF assms(4)])
  then have "matchRe [Seq (Cap 1 (Plus Digit)) Eps] (d # rest) Map.empty \<noteq> None"
    unfolding cap_unfold .
  from keyword_complete [OF e assms(2,3) this]
  show ?thesis unfolding limitRe_unfold .
qed

text \<open>A \<open>LIMIT\<close> clause is found exactly when the text has one.\<close>

lemma limit_clause_iff:
  "search limitRe sql \<noteq> None \<longleftrightarrow>
     (\<exists>p k w d rest. sql = p @ k @ w @ d # rest \<and> map canonicalize k = ''LIMIT''
        \<and> w \<noteq> [] \<and> (\<forall>x\<in>set w. isWhiteSpace x) \<and> inCls Digit d)"
proof
  assume "search limitRe sql \<noteq> None"
  then obtain m where "search limitRe sql = Some m" by auto
  from search_shape [OF this] obtain p s' where p: "sql = p @ s'"
      and "matchRe [limitRe] s' Map.empty = Some m" by blast
  from limitRe_shape [OF this(2)] obtain k w rest where a: "s' = k @ w @ groupText m 1 @ rest"
      and k: "map canonicalize k = ''LIMIT''" and w: "w \<noteq> []" "\<forall>x\<in>set w. isWhiteSpace x"
      and g: "groupText m 1 \<noteq> []" "\<forall>x\<in>set (groupText m 1). inCls Digit x"
    by (elim exE conjE)
  from g(1) obtain d ds where e: "groupText m 1 = d # ds" by (cases "groupText m 1") auto
  from g(2) have dd: "inCls Digit d" unfolding e by simp
  have c: "sql = p @ k @ w @ d # (ds @ rest)" unfolding p a e by simp
  show "\<exists>p k w d rest. sql = p @ k @ w @ d # rest \<and> map canonicalize k = ''LIMIT''
        \<and> w \<noteq> [] \<and> (\<forall>x\<in>set w. isWhiteSpace x) \<and> inCls Digit d"
  proof (intro exI conjI)
    show "sql = p @ k @ w @ d # (ds @ rest)" by (rule c)
    show "map canonicalize k = ''LIMIT''" by (rule k)
    show "w \<noteq> []" by (rule w(1))
    show "\<forall>x\<in>set w. isWhiteSpace x" by (rule w(2))
    show "inCls Digit d" by (rule dd)
  qed
next
  assume "\<exists>p k w d rest. sql = p @ k @ w @ d # rest \<and> map canonicalize k = ''LIMIT''
        \<and> w \<noteq> [] \<and> (\<forall>x\<in>set w. isWhiteSpace x) \<and> inCls Digit d"
  then obtain p k w d rest where a: "sql = p @ k @ w @ d # rest"
      and k: "map canonicalize k = ''LIMIT''"
      and w: "w \<noteq> []" "\<forall>x\<in>set w. isWhiteSpace x" and d: "inCls Digit d"
    by (elim exE conjE)
  have "search limitRe (p @ k @ w @ d # rest) \<noteq> None"
    by (rule search_complete [OF limitRe_complete [OF k w d]])
  then show "search limitRe sql \<noteq> None" unfolding a .
qed

lemma canon_SELECT: "map canonicalize ''SELECT'' = ''SELECT''"
  by (simp add: canonicalize_ascii)

lemma canon_TOP: "map canonicalize ''TOP'' = ''TOP''"
  by (simp add: canonicalize_ascii)

lemma topRe_unfold:
  "matchRe [topRe] s c
     = matchRe [Seq (Lit ''SELECT'') (Seq (Plus Space)
                 (Seq (Lit ''TOP'') (Seq (Plus Space) (Seq (Cap 1 (Plus Digit)) Eps))))] s c"
  by (simp only: topRe_def seqs_def foldr.simps o_apply id_apply)

lemma topRe_shape:
  assumes "matchRe [topRe] s Map.empty = Some m"
  shows "\<exists>k1 w1 k2 w2 d rest. s = k1 @ w1 @ k2 @ w2 @ d # rest
           \<and> map canonicalize k1 = ''SELECT'' \<and> w1 \<noteq> [] \<and> (\<forall>x\<in>set w1. isWhiteSpace x)
           \<and> map canonicalize k2 = ''TOP'' \<and> w2 \<noteq> [] \<and> (\<forall>x\<in>set w2. isWhiteSpace x)
           \<and> inCls Digit d"
proof -
  from assms have "matchRe [Seq (Lit ''SELECT'') (Seq (Plus Space)
                 (Seq (Lit ''TOP'') (Seq (Plus Space) (Seq (Cap 1 (Plus Digit)) Eps))))]
                     s Map.empty = Some m"
    unfolding topRe_unfold .
  from keyword_shape [OF this] obtain k1 w1 s1 where s: "s = k1 @ w1 @ s1"
      and k1: "map canonicalize k1 = map canonicalize ''SELECT''"
      and w1: "w1 \<noteq> []" "\<forall>x\<in>set w1. isWhiteSpace x"
      and a: "matchRe [Seq (Lit ''TOP'') (Seq (Plus Space) (Seq (Cap 1 (Plus Digit)) Eps))]
                s1 Map.empty = Some m"
    by (elim exE conjE)
  from keyword_shape [OF a] obtain k2 w2 s2 where s1: "s1 = k2 @ w2 @ s2"
      and k2: "map canonicalize k2 = map canonicalize ''TOP''"
      and w2: "w2 \<noteq> []" "\<forall>x\<in>set w2. isWhiteSpace x"
      and b: "matchRe [Seq (Cap 1 (Plus Digit)) Eps] s2 Map.empty = Some m"
    by (elim exE conjE)
  from b have "matchRe [Plus Digit, Close 1 s2, Eps] s2 Map.empty = Some m"
    unfolding cap_unfold .
  from digits_shape [OF this] obtain d ds rest where d: "s2 = d # ds @ rest"
      and dd: "\<forall>x\<in>set (d # ds). inCls Digit x"
    by (elim exE conjE)
  have c: "s = k1 @ w1 @ k2 @ w2 @ d # (ds @ rest)" unfolding s s1 d by simp
  from dd have d1: "inCls Digit d" by simp
  show ?thesis
  proof (intro exI conjI)
    show "s = k1 @ w1 @ k2 @ w2 @ d # (ds @ rest)" by (rule c)
    show "map canonicalize k1 = ''SELECT''" by (rule k1 [unfolded canon_SELECT])
    show "w1 \<noteq> []" by (rule w1(1))
    show "\<forall>x\<in>set w1. isWhiteSpace x" by (rule w1(2))
    show "map canonicalize k2 = ''TOP''" by (rule k2 [unfolded canon_TOP])
    show "w2 \<noteq> []" by (rule w2(1))
    show "\<forall>x\<in>set w2. isWhiteSpace x" by (rule w2(2))
    show "inCls Digit d" by (rule d1)
  qed
qed

lemma topRe_complete:
  assumes "map canonicalize k1 = ''SELECT''" and "w1 \<noteq> []" and "\<forall>x\<in>set w1. isWhiteSpace x"
    and "map canonicalize k2 = ''TOP''" and "w2 \<noteq> []" and "\<forall>x\<in>set w2. isWhiteSpace x"
    and "inCls Digit d"
  shows "matchRe [topRe] (k1 @ w1 @ k2 @ w2 @ d # rest) Map.empty \<noteq> None"
proof -
  have e1: "map canonicalize k1 = map canonicalize ''SELECT''"
    unfolding canon_SELECT by (rule assms(1))
  have e2: "map canonicalize k2 = map canonicalize ''TOP''"
    unfolding canon_TOP by (rule assms(4))
  have "matchRe [Plus Digit, Close 1 (d # rest), Eps] (d # rest) Map.empty \<noteq> None"
    by (rule digits_complete [OF assms(7)])
  then have "matchRe [Seq (Cap 1 (Plus Digit)) Eps] (d # rest) Map.empty \<noteq> None"
    unfolding cap_unfold .
  from keyword_complete [OF e1 assms(2,3) keyword_complete [OF e2 assms(5,6) this]]
  show ?thesis unfolding topRe_unfold .
qed

text \<open>A \<open>SELECT TOP\<close> clause is found exactly when the text has one.\<close>

lemma top_clause_iff:
  "search topRe sql \<noteq> None \<longleftrightarrow>
     (\<exists>p k1 w1 k2 w2 d rest. sql = p @ k1 @ w1 @ k2 @ w2 @ d # rest
        \<and> map canonicalize k1 = ''SELECT'' \<and> w1 \<noteq> [] \<and> (\<forall>x\<in>set w1. isWhiteSpace x)
        \<and> map canonicalize k2 = ''TOP'' \<and> w2 \<noteq> [] \<and> (\<forall>x\<in>set w2. isWhiteSpace x)
        \<and> inCls Digit d)"
proof
  assume "search topRe sql \<noteq> None"
  then obtain m where "search topRe sql = Some m" by auto
  from search_shape [OF this] obtain p s' where p: "sql = p @ s'"
      and "matchRe [topRe] s' Map.empty = Some m" by blast
  from topRe_shape [OF this(2)] obtain k1 w1 k2 w2 d rest
    where a: "s' = k1 @ w1 @ k2 @ w2 @ d # rest"
      and k1: "map canonicalize k1 = ''SELECT''" and w1: "w1 \<noteq> []" "\<forall>x\<in>set w1. isWhiteSpace x"
      and k2: "map canonicalize k2 = ''TOP''" and w2: "w2 \<noteq> []" "\<forall>x\<in>set w2. isWhiteSpace x"
      and d: "inCls Digit d"
    by (elim exE conjE)
  have c: "sql = p @ k1 @ w1 @ k2 @ w2 @ d # rest" unfolding p a by simp
  show "\<exists>p k1 w1 k2 w2 d rest. sql = p @ k1 @ w1 @ k2 @ w2 @ d # rest
        \<and> map canonicalize k1 = ''SELECT'' \<and> w1 \<noteq> [] \<and> (\<forall>x\<in>set w1. isWhiteSpace x)
        \<and> map canonicalize k2 = ''TOP'' \<and> w2 \<noteq> [] \<and> (\<forall>x\<in>set w2. isWhiteSpace x)
        \<and> inCls Digit d"
  proof (intro exI conjI)
    show "sql = p @ k1 @ w1 @ k2 @ w2 @ d # rest" by (rule c)
    show "map canonicalize k1 = ''SELECT''" by (rule k1)
    show "w1 \<noteq> []" by (rule w1(1))
    show "\<forall>x\<in>set w1. isWhiteSpace x" by (rule w1(2))
    show "map canonicalize k2 = ''TOP''" by (rule k2)
    show "w2 \<noteq> []" by (rule w2(1))
    show "\<forall>x\<in>set w2. isWhiteSpace x" by (rule w2(2))
    show "inCls Digit d" by (rule d)
  qed
next
  assume "\<exists>p k1 w1 k2 w2 d rest. sql = p @ k1 @ w1 @ k2 @ w2 @ d # rest
        \<and> map canonicalize k1 = ''SELECT'' \<and> w1 \<noteq> [] \<and> (\<forall>x\<in>set w1. isWhiteSpace x)
        \<and> map canonicalize k2 = ''TOP'' \<and> w2 \<noteq> [] \<and> (\<forall>x\<in>set w2. isWhiteSpace x)
        \<and> inCls Digit d"
  then obtain p k1 w1 k2 w2 d rest where a: "sql = p @ k1 @ w1 @ k2 @ w2 @ d # rest"
      and k1: "map canonicalize k1 = ''SELECT''" and w1: "w1 \<noteq> []" "\<forall>x\<in>set w1. isWhiteSpace x"
      and k2: "map canonicalize k2 = ''TOP''" and w2: "w2 \<noteq> []" "\<forall>x\<in>set w2. isWhiteSpace x"
      and d: "inCls Digit d"
    by (elim exE conjE)
  have "search topRe (p @ k1 @ w1 @ k2 @ w2 @ d # rest) \<noteq> None"
    by (rule search_complete [OF topRe_complete [OF k1 w1 k2 w2 d]])
  then show "search topRe sql \<noteq> None" unfolding a .
qed







lemma parseInt_digits: "parseInt ''1'' = 1" "parseInt ''2'' = 2"
  by (simp_all add: parseInt_def digit_value)


text \<open>
  Claim C10, as amended. When nowhere in the SQL a \<open>LIMIT\<close> (in any letter case) and
  white space are followed by a decimal digit, and the SQL has no \<open>SELECT TOP\<close>
  followed by white space and a digit either, the limit stage returns its input
  unchanged.
\<close>

theorem applyLimit_malformed_ignored:
  assumes "\<not> (\<exists>p k w d rest. sql = p @ k @ w @ d # rest \<and> map canonicalize k = ''LIMIT''
                 \<and> w \<noteq> [] \<and> (\<forall>x\<in>set w. isWhiteSpace x) \<and> inCls Digit d)"
    and "\<not> (\<exists>p k1 w1 k2 w2 d rest. sql = p @ k1 @ w1 @ k2 @ w2 @ d # rest
        \<and> map canonicalize k1 = ''SELECT'' \<and> w1 \<noteq> [] \<and> (\<forall>x\<in>set w1. isWhiteSpace x)
        \<and> map canonicalize k2 = ''TOP'' \<and> w2 \<noteq> [] \<and> (\<forall>x\<in>set w2. isWhiteSpace x)
        \<and> inCls Digit d)"
  shows "applyLimit data sql = data"
proof -
  from assms(1) have "search limitRe sql = None"
    unfolding limit_clause_iff [symmetric] by simp
  moreover from assms(2) have "search topRe sql = None"
    unfolding top_clause_iff [symmetric] by simp
  ultimately show ?thesis by (simp add: applyLimit_def)
qed

lemma no_match_sqlLimitWord: "search limitRe sqlLimitWord = None" "search topRe sqlLimitWord = None"
  by (simp_all only: limitRe_def topRe_def sqlLimitWord_def re_eval
        cong: if_weak_cong option.case_cong_weak)

text \<open>\<open>LIMIT abc\<close> is ignored.\<close>

theorem applyLimit_malformed_ignored_witness:
  "\<not> (\<exists>p k w d rest. sqlLimitWord = p @ k @ w @ d # rest \<and> map canonicalize k = ''LIMIT''
                 \<and> w \<noteq> [] \<and> (\<forall>x\<in>set w. isWhiteSpace x) \<and> inCls Digit d)
   \<and> search topRe sqlLimitWord = None
   \<and> applyLimit [woDelayed, woInProgress, woCompleted] sqlLimitWord
       = [woDelayed, woInProgress, woCompleted]"
proof -
  have a: "\<not> (\<exists>p k w d rest. sqlLimitWord = p @ k @ w @ d # rest \<and> map canonicalize k = ''LIMIT''
                 \<and> w \<noteq> [] \<and> (\<forall>x\<in>set w. isWhiteSpace x) \<and> inCls Digit d)"
    unfolding limit_clause_iff [symmetric] using no_match_sqlLimitWord(1) by simp
  have b: "\<not> (\<exists>p k1 w1 k2 w2 d rest. sqlLimitWord = p @ k1 @ w1 @ k2 @ w2 @ d # rest
        \<and> map canonicalize k1 = ''SELECT'' \<and> w1 \<noteq> [] \<and> (\<forall>x\<in>set w1. isWhiteSpace x)
        \<and> map canonicalize k2 = ''TOP'' \<and> w2 \<noteq> [] \<and> (\<forall>x\<in>set w2. isWhiteSpace x)
        \<and> inCls Digit d)"
    unfolding top_clause_iff [symmetric] using no_match_sqlLimitWord(2) by simp
  from applyLimit_malformed_ignored [OF a b, of "[woDelayed, woInProgress, woCompleted]"]
  show ?thesis using a no_match_sqlLimitWord(2) by (intro conjI)
qed

lemma limitMatch_sqlLimitMixed:
  "map_option (\<lambda>m. groupText m 1) (search limitRe sqlLimitMixed) = Some ''2''"
  apply (simp only: limitRe_def sqlLimitMixed_def re_eval option.map
        cong: if_weak_cong option.case_cong_weak)
  apply (simp add: groupText_def capture_def)
  done

lemma topMatch_sqlLimitMixed: "search topRe sqlLimitMixed = None"
  by (simp only: topRe_def sqlLimitMixed_def re_eval cong: if_weak_cong option.case_cong_weak)

text \<open>
  Claim C10 as stated fails: in \<open>LIMIT 2abc\<close> the token after \<open>LIMIT\<close> is not a
  sequence of digits, and there is no \<open>SELECT TOP\<close>, yet the pattern finds the digit
  2 and the stage returns two of the three rows.
\<close>

theorem limit_digit_prefix_counterexample:
  "applyLimit [woDelayed, woInProgress, woCompleted] sqlLimitMixed = [woDelayed, woInProgress]
   \<and> search topRe sqlLimitMixed = None"
proof -
  from limitMatch_sqlLimitMixed obtain lm where "search limitRe sqlLimitMixed = Some lm"
    and "groupText lm 1 = ''2''" by auto
  then show ?thesis
    by (simp add: applyLimit_def parseInt_digits topMatch_sqlLimitMixed)
qed

end
